theory Spec2Isabelle
  imports Main
begin

section \<open>JavaScript strings\<close>

text \<open>
  A JavaScript string is modelled as a \<^typ>\<open>string\<close>, each \<^typ>\<open>char\<close> standing for
  one code unit in the range U+0000..U+00FF.  On that range the regular-expression class
  \<^verbatim>\<open>\s\<close> and the characters removed by \<^verbatim>\<open>String.prototype.trim\<close> are TAB, LF, VT,
  FF, CR, SPACE and NBSP.
\<close>

definition isSpace :: "char \<Rightarrow> bool" where
  "isSpace c = (c = CHR 0x09 \<or> c = CHR 0x0A \<or> c = CHR 0x0B \<or> c = CHR 0x0C
                \<or> c = CHR 0x0D \<or> c = CHR 0x20 \<or> c = CHR 0xA0)"

definition isDigit :: "char \<Rightarrow> bool" where
  "isDigit c = (c = CHR ''0'' \<or> c = CHR ''1'' \<or> c = CHR ''2'' \<or> c = CHR ''3'' \<or> c = CHR ''4''
                \<or> c = CHR ''5'' \<or> c = CHR ''6'' \<or> c = CHR ''7'' \<or> c = CHR ''8'' \<or> c = CHR ''9'')"

text \<open>\<^verbatim>\<open>s.startsWith(p)\<close>: \<open>p\<close> is a prefix of \<open>s\<close>.\<close>

fun startsWith :: "string \<Rightarrow> string \<Rightarrow> bool" where
  "startsWith s [] = True"
| "startsWith [] (p # ps) = False"
| "startsWith (c # s) (p # ps) = (c = p \<and> startsWith s ps)"

text \<open>\<^verbatim>\<open>s.includes(sub)\<close>: \<open>sub\<close> occurs in \<open>s\<close> at some position.\<close>

fun includesStr :: "string \<Rightarrow> string \<Rightarrow> bool" where
  "includesStr [] sub = startsWith [] sub"
| "includesStr (c # s) sub = (startsWith (c # s) sub \<or> includesStr s sub)"

text \<open>
  \<^verbatim>\<open>s.split(sep)\<close> for a one-character separator: the pieces between the separators,
  \<open>n + 1\<close> pieces for \<open>n\<close> separators (the empty string gives one empty piece).
\<close>

fun split :: "char \<Rightarrow> string \<Rightarrow> string list" where
  "split sep [] = [[]]"
| "split sep (c # s) =
     (if c = sep then [] # split sep s
      else (case split sep s of [] \<Rightarrow> [[c]] | l # ls \<Rightarrow> (c # l) # ls))"

text \<open>\<^verbatim>\<open>parts.join(sep)\<close>.\<close>

fun join :: "string \<Rightarrow> string list \<Rightarrow> string" where
  "join sep [] = []"
| "join sep [x] = x"
| "join sep (x # y # ys) = x @ sep @ join sep (y # ys)"

text \<open>\<^verbatim>\<open>s.trim()\<close>.\<close>

definition trim :: "string \<Rightarrow> string" where
  "trim s = rev (dropWhile isSpace (rev (dropWhile isSpace s)))"

text \<open>
  \<^verbatim>\<open>parseInt(ds, 10)\<close> on a string of decimal digits returns a Number, a double: the
  integer that the digits denote when it is below \<open>2^53\<close>, and beyond that the nearest
  double, ties to the even mantissa (the rounding of the engine; the standard lets an
  engine drop digits after the twentieth), which is again an integer or, from
  \<open>2^1024 - 2^970\<close> on, \<^verbatim>\<open>Infinity\<close>.
\<close>

datatype jsnumber = Num int | PlusInfinity

definition digitVal :: "char \<Rightarrow> int" where
  "digitVal c = int (of_char c) - 48"

text \<open>The number of binary digits of a natural number.\<close>

fun bitLength :: "nat \<Rightarrow> nat" where
  "bitLength n = (if n = 0 then 0 else Suc (bitLength (n div 2)))"

declare bitLength.simps [simp del]

text \<open>The double nearest to a non-negative integer.\<close>

definition toNumber :: "int \<Rightarrow> jsnumber" where
  "toNumber n =
     (if n < 2 ^ 53 then Num n
      else (let e = bitLength (nat n) - 53;
                q = n div 2 ^ e;
                r = n mod 2 ^ e;
                half = 2 ^ (e - 1);
                q' = (if half < r \<or> (r = half \<and> odd q) then q + 1 else q);
                v = q' * 2 ^ e
            in if 2 ^ 1024 \<le> v then PlusInfinity else Num v))"

definition parseInt :: "string \<Rightarrow> jsnumber" where
  "parseInt ds = toNumber (foldl (\<lambda>n c. 10 * n + digitVal c) 0 ds)"

subsection \<open>The regular expressions of the source\<close>

text \<open>
  The risk patterns all have the shape \<^verbatim>\<open>/lit1\s+lit2/\<close> or \<^verbatim>\<open>/lit1\s*lit2/\<close>, where
  \<open>lit2\<close> starts with a character that is not white space.  So a match at a position
  exists iff \<open>lit1\<close> is there, followed by the whole run of white space (not empty for
  \<open>+\<close>), followed by \<open>lit2\<close>: a shorter run would be followed by white space, not by
  \<open>lit2\<close>.  The patterns carry no flag; \<^verbatim>\<open>pattern.test(line)\<close> is true iff there is a
  match at some position of the line.
\<close>

datatype quant = Plus | Star

record pattern =
  lit1 :: string
  spaces :: quant
  lit2 :: string

definition matchHere :: "pattern \<Rightarrow> string \<Rightarrow> bool" where
  "matchHere p s =
     (startsWith s (lit1 p) \<and>
      (let rest = drop (length (lit1 p)) s; after = dropWhile isSpace rest
       in (spaces p = Star \<or> length after < length rest) \<and> startsWith after (lit2 p)))"

fun test :: "pattern \<Rightarrow> string \<Rightarrow> bool" where
  "test p [] = matchHere p []"
| "test p (c # s) = (matchHere p (c # s) \<or> test p s)"

text \<open>
  \<^verbatim>\<open>line.match(/line (\d+)/)\<close>: the leftmost position where \<^verbatim>\<open>line \<close> is followed by a
  digit; the group is the whole run of digits there.
\<close>

definition lineMatchHere :: "string \<Rightarrow> string option" where
  "lineMatchHere s =
     (if startsWith s ''line '' then
        (let ds = takeWhile isDigit (drop 5 s) in if ds = [] then None else Some ds)
      else None)"

fun lineMatch :: "string \<Rightarrow> string option" where
  "lineMatch [] = None"
| "lineMatch (c # s) =
     (case lineMatchHere (c # s) of Some ds \<Rightarrow> Some ds | None \<Rightarrow> lineMatch s)"

section \<open>The linter (class PythonLinter)\<close>

text \<open>
  The line of a \<open>LintError\<close> is the one number of the model that can come from
  \<^verbatim>\<open>parseInt\<close>; every other number is an integer that the code writes or counts.
\<close>

record LintError =
  line :: jsnumber
  column :: int
  message :: string
  severity :: string
  rule :: "string option"

record LintWarning =
  w_line :: int
  w_column :: int
  w_message :: string
  w_rule :: "string option"

record PythonLintResult =
  isValid :: bool
  errors :: "LintError list"
  warnings :: "LintWarning list"

subsection \<open>performBasicSecurityCheck\<close>

definition dangerousPatterns :: "(pattern \<times> string) list" where
  "dangerousPatterns =
    [(\<lparr>lit1 = ''import'', spaces = Plus, lit2 = ''os''\<rparr>,
        ''Potentially dangerous: os module import''),
     (\<lparr>lit1 = ''import'', spaces = Plus, lit2 = ''subprocess''\<rparr>,
        ''Potentially dangerous: subprocess module import''),
     (\<lparr>lit1 = ''import'', spaces = Plus, lit2 = ''sys''\<rparr>,
        ''Potentially dangerous: sys module import''),
     (\<lparr>lit1 = ''exec'', spaces = Star, lit2 = ''(''\<rparr>,
        ''Potentially dangerous: exec() function call''),
     (\<lparr>lit1 = ''eval'', spaces = Star, lit2 = ''(''\<rparr>,
        ''Potentially dangerous: eval() function call''),
     (\<lparr>lit1 = ''__import__'', spaces = Star, lit2 = ''(''\<rparr>,
        ''Potentially dangerous: __import__() function call'')]"

text \<open>The inner \<^verbatim>\<open>for\<close> loop over the pattern table, for the line with the given index.\<close>

fun checkLine :: "(pattern \<times> string) list \<Rightarrow> int \<Rightarrow> string \<Rightarrow> LintWarning list" where
  "checkLine [] index l = []"
| "checkLine ((p, msg) # ps) index l =
     (if test p l
      then \<lparr>w_line = index + 1, w_column = 1, w_message = msg,
            w_rule = Some ''security-warning''\<rparr> # checkLine ps index l
      else checkLine ps index l)"

text \<open>\<^verbatim>\<open>lines.forEach((line, index) => ...)\<close>, from the given index on.\<close>

fun checkLines :: "int \<Rightarrow> string list \<Rightarrow> LintWarning list" where
  "checkLines index [] = []"
| "checkLines index (l # ls) = checkLine dangerousPatterns index l @ checkLines (index + 1) ls"

definition performBasicSecurityCheck :: "string \<Rightarrow> LintWarning list" where
  "performBasicSecurityCheck code = checkLines 0 (split CHR 0x0A code)"

section \<open>Promises, child processes and observable effects\<close>

text \<open>
  What a \<^verbatim>\<open>catch\<close> clause receives: an \<^verbatim>\<open>Error\<close> object with its message, or any other
  thrown value (\<^verbatim>\<open>error instanceof Error ? error.message : 'Unknown error'\<close>).
\<close>

datatype thrown = Error string | NonError

fun errorMessage :: "thrown \<Rightarrow> string" where
  "errorMessage (Error m) = m"
| "errorMessage NonError = ''Unknown error''"

text \<open>
  A promise is pending, resolved with a value or rejected; the first \<^verbatim>\<open>resolve\<close> or
  \<^verbatim>\<open>reject\<close> settles it and later calls are ignored.
\<close>

datatype 'a promise = Pending | Resolved 'a | Rejected thrown

fun settle :: "'a promise \<Rightarrow> 'a promise \<Rightarrow> 'a promise" where
  "settle Pending p = p"
| "settle (Resolved v) p = Resolved v"
| "settle (Rejected e) p = Rejected e"

text \<open>
  The child process and the timer belong to the platform.  What they do is an input of the
  model: the sequence of callbacks the event loop delivers, namely chunks on the two pipes,
  the \<^verbatim>\<open>close\<close> event with the exit code (\<open>None\<close> is \<^verbatim>\<open>null\<close>, the process having
  been ended by a signal), the \<^verbatim>\<open>error\<close> event with the message of the spawn fault, and
  the firing of the timer.
\<close>

datatype proc_event =
    StdoutData string
  | StderrData string
  | Close "int option"
  | ProcError string
  | TimerFired

type_synonym env = "string \<rightharpoonup> string"

record spawn_request =
  sp_command :: string
  sp_args :: "string list"
  sp_cwd :: "string option"
  sp_env :: "env option"

record PythonExecutionResult =
  success :: bool
  stdout :: string
  stderr :: string
  exitCode :: int
  executionTime :: int

datatype stream_type = Stdout | Stderr | ErrorOutput | CompleteOutput

record StreamOutput =
  so_type :: stream_type
  so_data :: string
  so_timestamp :: int

text \<open>The events emitted on the interpreter, which is an \<^verbatim>\<open>EventEmitter\<close>.\<close>

datatype emitted =
    DataEvent StreamOutput
  | TimeoutEvent
  | CompleteEvent PythonExecutionResult
  | ErrorEvent string

text \<open>
  What an operation does to the outside, in order.  \<open>SpawnProcess\<close> is the call of
  \<^verbatim>\<open>spawn\<close> with the given request, whether it then returns a child process or throws.
\<close>

datatype effect =
    WriteFile string string
  | SpawnProcess spawn_request
  | SetTimeout int
  | ClearTimeout
  | Kill
  | Emit emitted

subsection \<open>checkSyntax\<close>

text \<open>The loop over the lines of the compile check's diagnostic output.\<close>

fun parseLines :: "string list \<Rightarrow> LintError list" where
  "parseLines [] = []"
| "parseLines (l # ls) =
     (if includesStr l ''SyntaxError'' \<or> includesStr l ''IndentationError''
      then \<lparr>line = (case lineMatch l of Some ds \<Rightarrow> parseInt ds | None \<Rightarrow> Num 1),
            column = 1, message = trim l, severity = ''error'',
            rule = Some ''syntax-error''\<rparr> # parseLines ls
      else parseLines ls)"

record checkSyntax_state =
  cs_stderr :: string
  cs_errors :: "LintError list"
  cs_promise :: "LintError list promise"

text \<open>
  The three handlers that \<^verbatim>\<open>checkSyntax\<close> installs on the compile-check process; it
  listens to nothing else.
\<close>

fun checkSyntax_on :: "checkSyntax_state \<Rightarrow> proc_event \<Rightarrow> checkSyntax_state" where
  "checkSyntax_on st (StderrData d) = st\<lparr>cs_stderr := cs_stderr st @ d\<rparr>"
| "checkSyntax_on st (Close code) =
     (let errs = (if code \<noteq> Some 0 \<and> cs_stderr st \<noteq> []
                  then cs_errors st @ parseLines (split CHR 0x0A (cs_stderr st))
                  else cs_errors st)
      in st\<lparr>cs_errors := errs, cs_promise := settle (cs_promise st) (Resolved errs)\<rparr>)"
| "checkSyntax_on st (ProcError msg) =
     (let errs = cs_errors st @
                 [\<lparr>line = Num 1, column = 1, message = ''Python execution error: '' @ msg,
                   severity = ''error'', rule = None\<rparr>]
      in st\<lparr>cs_errors := errs, cs_promise := settle (cs_promise st) (Resolved errs)\<rparr>)"
| "checkSyntax_on st (StdoutData d) = st"
| "checkSyntax_on st TimerFired = st"

text \<open>
  \<^verbatim>\<open>spawn\<close> either throws inside the promise executor, which rejects the promise of
  \<^verbatim>\<open>checkSyntax\<close> before any handler is installed (\<open>Inl\<close>), or returns the child
  process, whose callbacks the handlers then receive (\<open>Inr\<close>).
\<close>

definition checkSyntax :: "thrown + proc_event list \<Rightarrow> LintError list promise" where
  "checkSyntax proc =
     (case proc of
        Inl e \<Rightarrow> Rejected e
      | Inr evs \<Rightarrow>
          cs_promise (foldl checkSyntax_on
                        \<lparr>cs_stderr = [], cs_errors = [], cs_promise = Pending\<rparr> evs))"

subsection \<open>lintCode\<close>

text \<open>
  The outside of one \<^verbatim>\<open>lintCode\<close> call: whether writing the transient file succeeds
  (\<^verbatim>\<open>createTempFile\<close> returns the path or throws), and whether \<^verbatim>\<open>spawn\<close> throws
  or else what the compile-check process does.  The random, best-effort deletion of the
  file swallows its own faults and touches nothing that is modelled.
\<close>

record lint_world =
  lint_tempFile :: "thrown + string"
  lint_process :: "thrown + proc_event list"

text \<open>The callbacks delivered for the compile-check process: none when there is no process.\<close>

definition lint_events :: "lint_world \<Rightarrow> proc_event list" where
  "lint_events w = (case lint_process w of Inl e \<Rightarrow> [] | Inr evs \<Rightarrow> evs)"

record PythonLinter =
  l_pythonPath :: string
  l_tempDir :: string

text \<open>
  \<^verbatim>\<open>lintCode(code, {strict})\<close>; \<open>strict = None\<close> is an absent option.  The result is the
  promise and the effects of the call.
\<close>

definition lintCode ::
  "lint_world \<Rightarrow> PythonLinter \<Rightarrow> string \<Rightarrow> bool option \<Rightarrow> PythonLintResult promise \<times> effect list"
where
  "lintCode w self code strict =
     (case lint_tempFile w of
        Inl e \<Rightarrow>
          (Resolved \<lparr>isValid = False,
                     errors = [\<lparr>line = Num 1, column = 1,
                                message = ''Linting failed: '' @ errorMessage e,
                                severity = ''error'', rule = None\<rparr>],
                     warnings = []\<rparr>, [])
      | Inr tempFilePath \<Rightarrow>
          (let eff = [WriteFile tempFilePath code,
                      SpawnProcess \<lparr>sp_command = l_pythonPath self,
                                    sp_args = [''-m'', ''py_compile'', tempFilePath],
                                    sp_cwd = None, sp_env = None\<rparr>]
           in case checkSyntax (lint_process w) of
                Pending \<Rightarrow> (Pending, eff)
              | Rejected e \<Rightarrow>
                  (Resolved \<lparr>isValid = False,
                             errors = [\<lparr>line = Num 1, column = 1,
                                        message = ''Linting failed: '' @ errorMessage e,
                                        severity = ''error'', rule = None\<rparr>],
                             warnings = []\<rparr>, eff)
              | Resolved errs \<Rightarrow>
                  (let warns = (if strict \<noteq> Some False
                                then performBasicSecurityCheck code else [])
                   in (Resolved \<lparr>isValid = (length errs = 0), errors = errs,
                                  warnings = warns\<rparr>, eff))))"

section \<open>The policy and the object store\<close>

text \<open>
  The TypeScript type \<^verbatim>\<open>InterpreterConfig\<close> has seven optional keys.  An object of that
  type as a caller supplies it (to a constructor or to \<^verbatim>\<open>updateConfig\<close>) is a
  \<open>PartialConfig\<close>: \<open>None\<close> is an absent key.  The constructor fills in every key, so
  the policy an interpreter holds is an \<open>InterpreterConfig\<close> with all seven values.  A key
  that is present with the value \<^verbatim>\<open>undefined\<close> is not modelled.  Numbers are integers.
  The environment is an object of its own, held by reference.
\<close>

type_synonym addr = nat

record InterpreterConfig =
  pythonPath :: string
  timeout :: int
  maxOutputLines :: int
  enableLinting :: bool
  allowUnsafeOperations :: bool
  workingDirectory :: string
  environment :: addr

record PartialConfig =
  p_pythonPath :: "string option"
  p_timeout :: "int option"
  p_maxOutputLines :: "int option"
  p_enableLinting :: "bool option"
  p_allowUnsafeOperations :: "bool option"
  p_workingDirectory :: "string option"
  p_environment :: "addr option"

text \<open>One key of \<^verbatim>\<open>{...a, ...b}\<close>: the later object wins where it has the key.\<close>

fun over :: "'a option \<Rightarrow> 'a option \<Rightarrow> 'a option" where
  "over a None = a"
| "over a (Some v) = Some v"

definition spread :: "PartialConfig \<Rightarrow> PartialConfig \<Rightarrow> PartialConfig" where
  "spread a b =
     \<lparr>p_pythonPath = over (p_pythonPath a) (p_pythonPath b),
      p_timeout = over (p_timeout a) (p_timeout b),
      p_maxOutputLines = over (p_maxOutputLines a) (p_maxOutputLines b),
      p_enableLinting = over (p_enableLinting a) (p_enableLinting b),
      p_allowUnsafeOperations = over (p_allowUnsafeOperations a) (p_allowUnsafeOperations b),
      p_workingDirectory = over (p_workingDirectory a) (p_workingDirectory b),
      p_environment = over (p_environment a) (p_environment b)\<rparr>"

text \<open>\<^verbatim>\<open>Object.assign(c, p)\<close>, and \<^verbatim>\<open>{...c, ...p}\<close> for a complete \<open>c\<close>.\<close>

fun orElse :: "'a \<Rightarrow> 'a option \<Rightarrow> 'a" where
  "orElse a None = a"
| "orElse a (Some v) = v"

definition assign :: "InterpreterConfig \<Rightarrow> PartialConfig \<Rightarrow> InterpreterConfig" where
  "assign c p =
     \<lparr>pythonPath = orElse (pythonPath c) (p_pythonPath p),
      timeout = orElse (timeout c) (p_timeout p),
      maxOutputLines = orElse (maxOutputLines c) (p_maxOutputLines p),
      enableLinting = orElse (enableLinting c) (p_enableLinting p),
      allowUnsafeOperations = orElse (allowUnsafeOperations c) (p_allowUnsafeOperations p),
      workingDirectory = orElse (workingDirectory c) (p_workingDirectory p),
      environment = orElse (environment c) (p_environment p)\<rparr>"

text \<open>
  The store: the policy objects and the environment objects, by address, and the next
  free address.  An object literal allocates a new object.
\<close>

record heap =
  configs :: "addr \<Rightarrow> InterpreterConfig"
  envs :: "addr \<Rightarrow> env"
  nextAddr :: addr

definition newConfig :: "heap \<Rightarrow> InterpreterConfig \<Rightarrow> addr \<times> heap" where
  "newConfig h c =
     (nextAddr h, h\<lparr>configs := (configs h)(nextAddr h := c), nextAddr := Suc (nextAddr h)\<rparr>)"

text \<open>What the process provides: \<^verbatim>\<open>process.cwd()\<close>, \<^verbatim>\<open>process.env\<close>, \<^verbatim>\<open>os.tmpdir()\<close>.\<close>

record ambient =
  process_cwd :: string
  process_env :: addr
  tmpdir :: string

record PythonInterpreter =
  config :: addr
  linter :: PythonLinter
  tempDir :: string

definition new_PythonInterpreter ::
  "ambient \<Rightarrow> heap \<Rightarrow> PartialConfig \<Rightarrow> PythonInterpreter \<times> heap"
where
  "new_PythonInterpreter amb h cfg =
     (let c = assign \<lparr>pythonPath = ''python3'', timeout = 30000, maxOutputLines = 1000,
                      enableLinting = True, allowUnsafeOperations = False,
                      workingDirectory = process_cwd amb,
                      environment = process_env amb\<rparr> cfg;
          (a, h') = newConfig h c
      in (\<lparr>config = a,
           linter = \<lparr>l_pythonPath = pythonPath c, l_tempDir = tmpdir amb\<rparr>,
           tempDir = tmpdir amb\<rparr>, h'))"

text \<open>\<^verbatim>\<open>this.config\<close>, read.\<close>

definition thisConfig :: "heap \<Rightarrow> PythonInterpreter \<Rightarrow> InterpreterConfig" where
  "thisConfig h self = configs h (config self)"

definition getConfig :: "heap \<Rightarrow> PythonInterpreter \<Rightarrow> addr \<times> heap" where
  "getConfig h self = newConfig h (thisConfig h self)"

definition updateConfig :: "heap \<Rightarrow> PythonInterpreter \<Rightarrow> PartialConfig \<Rightarrow> heap" where
  "updateConfig h self newCfg =
     h\<lparr>configs := (configs h)(config self := assign (thisConfig h self) newCfg)\<rparr>"

subsection \<open>createInterpreter (utils.ts)\<close>

definition createInterpreter ::
  "ambient \<Rightarrow> heap \<Rightarrow> PartialConfig \<Rightarrow> PythonInterpreter \<times> heap"
where
  "createInterpreter amb h cfg =
     (let mergedConfig =
            spread \<lparr>p_pythonPath = None, p_timeout = Some 30000,
                    p_maxOutputLines = Some 1000, p_enableLinting = Some True,
                    p_allowUnsafeOperations = Some False, p_workingDirectory = None,
                    p_environment = None\<rparr> cfg;
          safeConfig = mergedConfig\<lparr>p_enableLinting := Some True,
                                    p_allowUnsafeOperations := Some False\<rparr>
      in new_PythonInterpreter amb h safeConfig)"

text \<open>
  \<^verbatim>\<open>createUnsafeInterpreter\<close>, whose defaults carry the comment
  \<^verbatim>\<open>timeout: 0, // No timeout\<close>; its console warning is not modelled.
\<close>

definition createUnsafeInterpreter ::
  "ambient \<Rightarrow> heap \<Rightarrow> PartialConfig \<Rightarrow> PythonInterpreter \<times> heap"
where
  "createUnsafeInterpreter amb h cfg =
     (let unsafeConfig =
            spread \<lparr>p_pythonPath = None, p_timeout = Some 0,
                    p_maxOutputLines = Some 9007199254740991, p_enableLinting = Some False,
                    p_allowUnsafeOperations = Some True, p_workingDirectory = None,
                    p_environment = None\<rparr> cfg
      in new_PythonInterpreter amb h unsafeConfig)"

section \<open>The execution engine\<close>

record ExecutionOptions =
  opt_timeout :: "int option"
  opt_cwd :: "string option"
  opt_env :: "env option"
  opt_stream :: "bool option"
  opt_sanitize :: "bool option"


text \<open>
  The outside of one \<^verbatim>\<open>executeCode\<close> call: the outside of its lint pass, whether
  writing the script file succeeds, whether \<^verbatim>\<open>spawn\<close> throws (as it does for a
  working directory that is not a directory) or else the callbacks delivered for the
  interpreter process, each with the reading of \<^verbatim>\<open>Date.now()\<close> in it, the reading at
  the start of the call and the one in an early \<^verbatim>\<open>return\<close>, whether the interpreter
  object has a listener for its \<^verbatim>\<open>error\<close> event (an \<^verbatim>\<open>EventEmitter\<close> without one
  throws the error out of \<^verbatim>\<open>emit\<close>), and \<^verbatim>\<open>JSON.stringify\<close> on a policy, which
  returns a string for every policy of the type here: strings, numbers, booleans and a
  map from strings to strings, so no cycle and no value it refuses.  Listeners are taken
  not to throw.  No \<^verbatim>\<open>updateConfig\<close> runs between the callbacks of one execution.
\<close>

record world =
  lint_outside :: lint_world
  exec_tempFile :: "thrown + string"
  exec_process :: "thrown + (int \<times> proc_event) list"
  startTime :: int
  returnTime :: int
  errorListener :: bool
  stringify :: "InterpreterConfig \<Rightarrow> env \<Rightarrow> string"

text \<open>
  The callbacks delivered for the interpreter process: none when \<^verbatim>\<open>spawn\<close> threw and
  there is no process.
\<close>

definition exec_events :: "world \<Rightarrow> (int \<times> proc_event) list" where
  "exec_events w = (case exec_process w of Inl e \<Rightarrow> [] | Inr evs \<Rightarrow> evs)"

text \<open>
  The variables of one execution: the closure variables \<^verbatim>\<open>stdout\<close>, \<^verbatim>\<open>stderr\<close> and
  \<^verbatim>\<open>outputLineCount\<close>, whether the timer is still to fire, whether the process is in
  \<^verbatim>\<open>activeProcesses\<close>, the effects so far, the promise, and the errors thrown out of a
  handler.
\<close>

record exec_state =
  x_stdout :: string
  x_stderr :: string
  outputLineCount :: int
  timer :: bool
  active :: bool
  effects :: "effect list"
  promise :: "PythonExecutionResult promise"
  uncaught :: "thrown list"

definition emit :: "emitted \<Rightarrow> exec_state \<Rightarrow> exec_state" where
  "emit e st = st\<lparr>effects := effects st @ [Emit e]\<rparr>"

text \<open>\<^verbatim>\<open>clearTimeout(timeout); this.activeProcesses.delete(python)\<close>.\<close>

definition release :: "exec_state \<Rightarrow> exec_state" where
  "release st = st\<lparr>timer := False, active := False, effects := effects st @ [ClearTimeout]\<rparr>"

text \<open>\<^verbatim>\<open>options.timeout || this.config.timeout\<close>: a number is falsy when it is 0.\<close>

definition effectiveTimeout :: "ExecutionOptions \<Rightarrow> InterpreterConfig \<Rightarrow> int" where
  "effectiveTimeout options cfg =
     (case opt_timeout options of
        Some t \<Rightarrow> if t \<noteq> 0 then t else timeout cfg
      | None \<Rightarrow> timeout cfg)"

text \<open>\<^verbatim>\<open>options.cwd || this.config.workingDirectory\<close>: a string is falsy when it is empty.\<close>

definition effectiveCwd :: "ExecutionOptions \<Rightarrow> InterpreterConfig \<Rightarrow> string" where
  "effectiveCwd options cfg =
     (case opt_cwd options of
        Some d \<Rightarrow> if d \<noteq> [] then d else workingDirectory cfg
      | None \<Rightarrow> workingDirectory cfg)"

text \<open>\<^verbatim>\<open>{...this.config.environment, ...options.env}\<close>.\<close>

definition overlayEnv :: "env \<Rightarrow> ExecutionOptions \<Rightarrow> env" where
  "overlayEnv base options = base ++ (case opt_env options of None \<Rightarrow> Map.empty | Some e \<Rightarrow> e)"

text \<open>
  The closure of the promise executor up to the installation of the handlers: the process
  is spawned and tracked, and \<^verbatim>\<open>setTimeout\<close> is called, unconditionally.
\<close>

definition spawned :: "spawn_request \<Rightarrow> int \<Rightarrow> exec_state" where
  "spawned req delay =
     \<lparr>x_stdout = [], x_stderr = [], outputLineCount = 0, timer = True, active = True,
      effects = [SpawnProcess req, SetTimeout delay], promise = Pending, uncaught = []\<rparr>"

text \<open>
  \<^verbatim>\<open>spawn\<close> throws inside the promise executor: the promise is rejected with what was
  thrown, and nothing after the call has run, neither the tracking nor \<^verbatim>\<open>setTimeout\<close>
  nor the installation of a handler.
\<close>

definition threw :: "spawn_request \<Rightarrow> thrown \<Rightarrow> exec_state" where
  "threw req e =
     \<lparr>x_stdout = [], x_stderr = [], outputLineCount = 0, timer = False, active = False,
      effects = [SpawnProcess req], promise = Rejected e, uncaught = []\<rparr>"

text \<open>The result built in the \<^verbatim>\<open>close\<close> handler of both modes.\<close>

definition closeResult :: "exec_state \<Rightarrow> int option \<Rightarrow> int \<Rightarrow> PythonExecutionResult" where
  "closeResult st code elapsed =
     \<lparr>success = (code = Some 0), stdout = x_stdout st, stderr = x_stderr st,
      exitCode = (case code of None \<Rightarrow> 0 | Some c \<Rightarrow> if c \<noteq> 0 then c else 0),
      executionTime = elapsed\<rparr>"

subsection \<open>executeWithStreaming\<close>

fun streaming_on ::
  "world \<Rightarrow> InterpreterConfig \<Rightarrow> exec_state \<Rightarrow> int \<times> proc_event \<Rightarrow> exec_state"
where
  "streaming_on w cfg st (now, StdoutData output) =
     (let st' = st\<lparr>x_stdout := x_stdout st @ output,
                   outputLineCount :=
                     outputLineCount st + (int (length (split CHR 0x0A output)) - 1)\<rparr>
      in if allowUnsafeOperations cfg \<or> outputLineCount st' < maxOutputLines cfg
         then emit (DataEvent \<lparr>so_type = Stdout, so_data = output, so_timestamp = now\<rparr>) st'
         else st')"
| "streaming_on w cfg st (now, StderrData output) =
     emit (DataEvent \<lparr>so_type = Stderr, so_data = output, so_timestamp = now\<rparr>)
       (st\<lparr>x_stderr := x_stderr st @ output\<rparr>)"
| "streaming_on w cfg st (now, Close code) =
     (let st' = release st;
          result = closeResult st' code (now - startTime w);
          st'' = emit (CompleteEvent result) st'
      in st''\<lparr>promise := settle (promise st'') (Resolved result)\<rparr>)"
| "streaming_on w cfg st (now, ProcError msg) =
     (let st' = release st
      in if errorListener w
         then (let st'' = emit (ErrorEvent msg) st'
               in st''\<lparr>promise := settle (promise st'') (Rejected (Error msg))\<rparr>)
         else st'\<lparr>uncaught := uncaught st' @ [Error msg]\<rparr>)"
| "streaming_on w cfg st (now, TimerFired) =
     (if timer st
      then emit TimeoutEvent (st\<lparr>timer := False, effects := effects st @ [Kill]\<rparr>)
      else st)"

definition executeWithStreaming ::
  "world \<Rightarrow> InterpreterConfig \<Rightarrow> env \<Rightarrow> string \<Rightarrow> ExecutionOptions \<Rightarrow> exec_state"
where
  "executeWithStreaming w cfg cfgEnv filePath options =
     (let req = \<lparr>sp_command = pythonPath cfg, sp_args = [filePath],
                 sp_cwd = Some (effectiveCwd options cfg),
                 sp_env = Some (overlayEnv cfgEnv options)\<rparr>
      in case exec_process w of
           Inl e \<Rightarrow> threw req e
         | Inr evs \<Rightarrow>
             foldl (streaming_on w cfg) (spawned req (effectiveTimeout options cfg)) evs)"

subsection \<open>executeDirectly\<close>

fun directly_on ::
  "world \<Rightarrow> InterpreterConfig \<Rightarrow> exec_state \<Rightarrow> int \<times> proc_event \<Rightarrow> exec_state"
where
  "directly_on w cfg st (now, StdoutData d) = st\<lparr>x_stdout := x_stdout st @ d\<rparr>"
| "directly_on w cfg st (now, StderrData d) = st\<lparr>x_stderr := x_stderr st @ d\<rparr>"
| "directly_on w cfg st (now, Close code) =
     (let st' = release st
      in st'\<lparr>promise :=
              settle (promise st') (Resolved (closeResult st' code (now - startTime w)))\<rparr>)"
| "directly_on w cfg st (now, ProcError msg) =
     (let st' = release st
      in st'\<lparr>promise :=
              settle (promise st')
                (Resolved \<lparr>success = False, stdout = x_stdout st',
                           stderr = x_stderr st' @ msg, exitCode = 1,
                           executionTime = now - startTime w\<rparr>)\<rparr>)"
| "directly_on w cfg st (now, TimerFired) =
     (if timer st then st\<lparr>timer := False, effects := effects st @ [Kill]\<rparr> else st)"

definition executeDirectly ::
  "world \<Rightarrow> InterpreterConfig \<Rightarrow> env \<Rightarrow> string \<Rightarrow> string \<Rightarrow> ExecutionOptions \<Rightarrow> exec_state"
where
  "executeDirectly w cfg cfgEnv tmp filePath options =
     (let req = \<lparr>sp_command = pythonPath cfg, sp_args = [filePath],
                 sp_cwd = Some (effectiveCwd options cfg),
                 sp_env = Some ((overlayEnv cfgEnv options)
                                  (''PYTHON_INTERPRETER_TEMP_DIR'' \<mapsto> tmp,
                                   ''PYTHON_INTERPRETER_CONFIG'' \<mapsto> stringify w cfg cfgEnv))\<rparr>
      in case exec_process w of
           Inl e \<Rightarrow> threw req e
         | Inr evs \<Rightarrow>
             foldl (directly_on w cfg) (spawned req (effectiveTimeout options cfg)) evs)"

subsection \<open>executeCode\<close>

definition sanitizeCode :: "string \<Rightarrow> string" where
  "sanitizeCode code = code"

text \<open>
  The part of \<^verbatim>\<open>executeCode\<close> after the lint gate, the \<^verbatim>\<open>try\<close> block.  The promise
  of either mode is returned without \<^verbatim>\<open>await\<close>, so a rejection of it is the rejection
  of \<^verbatim>\<open>executeCode\<close> and does not reach the \<^verbatim>\<open>catch\<close> clause, also when it
  comes from \<^verbatim>\<open>spawn\<close> throwing; only a fault of \<^verbatim>\<open>createTempFile\<close> does.
\<close>

definition run :: "world \<Rightarrow> heap \<Rightarrow> PythonInterpreter \<Rightarrow> string \<Rightarrow> ExecutionOptions \<Rightarrow>
                   PythonExecutionResult promise \<times> effect list" where
  "run w h self code options =
     (let cfg = thisConfig h self;
          sanitizedCode = (if allowUnsafeOperations cfg then code else sanitizeCode code)
      in case exec_tempFile w of
           Inl e \<Rightarrow>
             (Resolved \<lparr>success = False, stdout = [],
                        stderr = ''Execution failed: '' @ errorMessage e,
                        exitCode = 1, executionTime = returnTime w - startTime w\<rparr>, [])
         | Inr tempFilePath \<Rightarrow>
             (let st = (if opt_stream options = Some True
                        then executeWithStreaming w cfg (envs h (environment cfg))
                               tempFilePath options
                        else executeDirectly w cfg (envs h (environment cfg))
                               (tempDir self) tempFilePath options)
              in (promise st, WriteFile tempFilePath sanitizedCode # effects st)))"

definition executeCode :: "world \<Rightarrow> heap \<Rightarrow> PythonInterpreter \<Rightarrow> string \<Rightarrow> ExecutionOptions \<Rightarrow>
                           PythonExecutionResult promise \<times> effect list" where
  "executeCode w h self code options =
     (let cfg = thisConfig h self
      in if enableLinting cfg \<and> opt_sanitize options \<noteq> Some False
         then (case lintCode (lint_outside w) (linter self) code
                      (Some (\<not> allowUnsafeOperations cfg)) of
                 (Pending, eff) \<Rightarrow> (Pending, eff)
               | (Rejected e, eff) \<Rightarrow> (Rejected e, eff)
               | (Resolved lintResult, eff) \<Rightarrow>
                   if \<not> isValid lintResult
                   then (Resolved \<lparr>success = False, stdout = [],
                                   stderr = join [CHR 0x0A] (map message (errors lintResult)),
                                   exitCode = 1,
                                   executionTime = returnTime w - startTime w\<rparr>, eff)
                   else (let (p, eff') = run w h self code options in (p, eff @ eff')))
         else run w h self code options)"

subsection \<open>executeUnsafe\<close>



text \<open>The two assignments to \<^verbatim>\<open>this.config\<close> before the \<^verbatim>\<open>try\<close>, and those in \<^verbatim>\<open>finally\<close>.\<close>

definition setFlags :: "heap \<Rightarrow> PythonInterpreter \<Rightarrow> bool \<Rightarrow> bool \<Rightarrow> heap" where
  "setFlags h self lint unsafe =
     h\<lparr>configs := (configs h)
          (config self := (thisConfig h self)\<lparr>enableLinting := lint,
                                               allowUnsafeOperations := unsafe\<rparr>)\<rparr>"


section \<open>Observations on an execution\<close>

text \<open>The two events that end the life of a process: \<^verbatim>\<open>close\<close> and \<^verbatim>\<open>error\<close>.\<close>

fun isTerminal :: "proc_event \<Rightarrow> bool" where
  "isTerminal (Close code) = True"
| "isTerminal (ProcError msg) = True"
| "isTerminal (StdoutData d) = False"
| "isTerminal (StderrData d) = False"
| "isTerminal TimerFired = False"

text \<open>The chunks that arrive on each pipe, in order.\<close>

fun stdoutChunks :: "(int \<times> proc_event) list \<Rightarrow> string list" where
  "stdoutChunks [] = []"
| "stdoutChunks ((now, StdoutData d) # evs) = d # stdoutChunks evs"
| "stdoutChunks (e # evs) = stdoutChunks evs"

fun stderrChunks :: "(int \<times> proc_event) list \<Rightarrow> string list" where
  "stderrChunks [] = []"
| "stderrChunks ((now, StderrData d) # evs) = d # stderrChunks evs"
| "stderrChunks (e # evs) = stderrChunks evs"

text \<open>The payloads of the \<^verbatim>\<open>data\<close> events emitted for a given stream, in order.\<close>

fun dataOf :: "stream_type \<Rightarrow> effect \<Rightarrow> string list" where
  "dataOf ty (Emit (DataEvent so)) = (if so_type so = ty then [so_data so] else [])"
| "dataOf ty e = []"

definition emittedData :: "stream_type \<Rightarrow> effect list \<Rightarrow> string list" where
  "emittedData ty effs = concat (map (dataOf ty) effs)"

text \<open>The number of line boundaries in a text.\<close>

definition lineBoundaries :: "string \<Rightarrow> int" where
  "lineBoundaries s = int (length (filter (\<lambda>c. c = CHR 0x0A) s))"

section \<open>Sample inputs\<close>

text \<open>The empty objects \<^verbatim>\<open>{}\<close> of the three option types.\<close>

definition noConfig :: PartialConfig where
  "noConfig = \<lparr>p_pythonPath = None, p_timeout = None, p_maxOutputLines = None,
               p_enableLinting = None, p_allowUnsafeOperations = None,
               p_workingDirectory = None, p_environment = None\<rparr>"

definition noOptions :: ExecutionOptions where
  "noOptions = \<lparr>opt_timeout = None, opt_cwd = None, opt_env = None, opt_stream = None,
                opt_sanitize = None\<rparr>"


text \<open>A store that holds \<^verbatim>\<open>process.env\<close> at address 0 and nothing else yet.\<close>

definition someAmbient :: ambient where
  "someAmbient = \<lparr>process_cwd = ''/work'', process_env = 0, tmpdir = ''/tmp''\<rparr>"

definition someHeap :: heap where
  "someHeap =
     \<lparr>configs = (\<lambda>a. \<lparr>pythonPath = [], timeout = 0, maxOutputLines = 0,
                       enableLinting = False, allowUnsafeOperations = False,
                       workingDirectory = [], environment = 0\<rparr>),
      envs = (\<lambda>a. [''PATH'' \<mapsto> ''/usr/bin'']),
      nextAddr = 1\<rparr>"

text \<open>
  An outside where both files are written, the compile check finds nothing, and the
  interpreter prints one line and exits with code 0.
\<close>

definition someWorld :: world where
  "someWorld =
     \<lparr>lint_outside = \<lparr>lint_tempFile = Inr ''/tmp/python_lint_1.py'',
                       lint_process = Inr [Close (Some 0)]\<rparr>,
      exec_tempFile = Inr ''/tmp/python_exec_1.py'',
      exec_process =
        Inr [(105, StdoutData ''Hello, World!\<newline>''), (110, Close (Some 0))],
      startTime = 100,
      returnTime = 101,
      errorListener = True,
      stringify = (\<lambda>cfg e. ''{}'')\<rparr>"

text \<open>The compile check reports a syntax error.\<close>

definition syntaxErrorLint :: lint_world where
  "syntaxErrorLint =
     \<lparr>lint_tempFile = Inr ''/tmp/python_lint_1.py'',
      lint_process =
        Inr [StderrData ''  File /tmp/python_lint_1.py, line 1\<newline>'',
             StderrData ''SyntaxError: invalid syntax\<newline>'', Close (Some 1)]\<rparr>"

text \<open>An interpreter from the safe constructor, with no overrides.\<close>

definition safeInterpreter :: PythonInterpreter where
  "safeInterpreter = fst (createInterpreter someAmbient someHeap noConfig)"

definition safeHeap :: heap where
  "safeHeap = snd (createInterpreter someAmbient someHeap noConfig)"

text \<open>An interpreter from the unsafe constructor, with no overrides.\<close>

definition unsafeInterpreter :: PythonInterpreter where
  "unsafeInterpreter = fst (createUnsafeInterpreter someAmbient someHeap noConfig)"

definition unsafeHeap :: heap where
  "unsafeHeap = snd (createUnsafeInterpreter someAmbient someHeap noConfig)"

text \<open>A policy with a limit of two lines, and a process that prints three.\<close>

definition limitedConfig :: InterpreterConfig where
  "limitedConfig =
     \<lparr>pythonPath = ''python3'', timeout = 30000, maxOutputLines = 2, enableLinting = True,
      allowUnsafeOperations = False, workingDirectory = ''/work'', environment = 0\<rparr>"

definition chattyEvents :: "(int \<times> proc_event) list" where
  "chattyEvents =
     [(101, StdoutData ''a\<newline>''), (102, StdoutData ''b\<newline>''), (103, StderrData ''oops''),
      (104, StdoutData ''c\<newline>''), (105, StderrData ''again''), (106, Close (Some 0))]"

text \<open>What a caller may write into the object it got from \<open>getConfig\<close>.\<close>

definition tamperedConfig :: InterpreterConfig where
  "tamperedConfig =
     \<lparr>pythonPath = ''/bin/sh'', timeout = 0, maxOutputLines = 0, enableLinting = False,
      allowUnsafeOperations = True, workingDirectory = ''/'', environment = 0\<rparr>"

section \<open>Spawned or not\<close>

lemma lint_events_Inr: "lint_process w = Inr evs \<Longrightarrow> lint_events w = evs"
  by (simp add: lint_events_def)

lemma lint_events_process: "lint_events w \<noteq> [] \<Longrightarrow> lint_process w = Inr (lint_events w)"
  by (cases "lint_process w") (simp_all add: lint_events_def)

lemma exec_events_Inr: "exec_process w = Inr evs \<Longrightarrow> exec_events w = evs"
  by (simp add: exec_events_def)

lemma exec_events_process: "exec_events w \<noteq> [] \<Longrightarrow> exec_process w = Inr (exec_events w)"
  by (cases "exec_process w") (simp_all add: exec_events_def)

lemma exec_events_threw: "exec_process w = Inl e \<Longrightarrow> exec_events w = []"
  by (simp add: exec_events_def)

lemma executeWithStreaming_spawned:
  "exec_process w = Inr evs \<Longrightarrow>
   executeWithStreaming w cfg cfgEnv filePath options =
     foldl (streaming_on w cfg)
       (spawned \<lparr>sp_command = pythonPath cfg, sp_args = [filePath],
                 sp_cwd = Some (effectiveCwd options cfg),
                 sp_env = Some (overlayEnv cfgEnv options)\<rparr>
          (effectiveTimeout options cfg)) evs"
  by (simp add: executeWithStreaming_def)

lemma executeWithStreaming_threw:
  "exec_process w = Inl e \<Longrightarrow>
   executeWithStreaming w cfg cfgEnv filePath options =
     threw \<lparr>sp_command = pythonPath cfg, sp_args = [filePath],
            sp_cwd = Some (effectiveCwd options cfg),
            sp_env = Some (overlayEnv cfgEnv options)\<rparr> e"
  by (simp add: executeWithStreaming_def)

lemma executeDirectly_spawned:
  "exec_process w = Inr evs \<Longrightarrow>
   executeDirectly w cfg cfgEnv tmp filePath options =
     foldl (directly_on w cfg)
       (spawned \<lparr>sp_command = pythonPath cfg, sp_args = [filePath],
                 sp_cwd = Some (effectiveCwd options cfg),
                 sp_env = Some ((overlayEnv cfgEnv options)
                                  (''PYTHON_INTERPRETER_TEMP_DIR'' \<mapsto> tmp,
                                   ''PYTHON_INTERPRETER_CONFIG'' \<mapsto> stringify w cfg cfgEnv))\<rparr>
          (effectiveTimeout options cfg)) evs"
  by (simp add: executeDirectly_def)

lemma executeDirectly_threw:
  "exec_process w = Inl e \<Longrightarrow>
   executeDirectly w cfg cfgEnv tmp filePath options =
     threw \<lparr>sp_command = pythonPath cfg, sp_args = [filePath],
            sp_cwd = Some (effectiveCwd options cfg),
            sp_env = Some ((overlayEnv cfgEnv options)
                             (''PYTHON_INTERPRETER_TEMP_DIR'' \<mapsto> tmp,
                              ''PYTHON_INTERPRETER_CONFIG'' \<mapsto> stringify w cfg cfgEnv))\<rparr> e"
  by (simp add: executeDirectly_def)

section \<open>The heuristic stage of the linter\<close>

lemma split_not_Nil: "split sep s \<noteq> []"
  by (induction s) (auto split: list.splits)

lemma split_append_no_sep:
  "sep \<notin> set xs \<Longrightarrow> split sep (xs @ ys) = (xs @ hd (split sep ys)) # tl (split sep ys)"
proof (induction xs)
  case Nil
  then show ?case using split_not_Nil [of sep ys] by (cases "split sep ys") auto
next
  case (Cons x xs)
  then show ?case by auto
qed

lemma test_import_os:
  "test \<lparr>lit1 = ''import'', spaces = Plus, lit2 = ''os''\<rparr> (''import os'' @ rest)"
  by (simp add: matchHere_def isSpace_def)


text \<open>The alias form is flagged whatever the name is.\<close>

lemma import_os_as_any_name_is_flagged:
  "\<lparr>w_line = 1, w_column = 1, w_message = ''Potentially dangerous: os module import'',
     w_rule = Some ''security-warning''\<rparr>
     \<in> set (performBasicSecurityCheck (''import os as '' @ alias))"
proof -
  have nl: "CHR 0x0A \<notin> set ''import os as ''" by simp
  have t: "test \<lparr>lit1 = ''import'', spaces = Plus, lit2 = ''os''\<rparr> (''import os as '' @ z)"
    for z using test_import_os [of "'' as '' @ z"] by simp
  show ?thesis
    unfolding performBasicSecurityCheck_def split_append_no_sep [OF nl]
    using t by (simp add: dangerousPatterns_def del: test.simps)
qed















section \<open>The safe constructor\<close>

lemma orElse_over_Some: "orElse a (over (Some b) x) = orElse b x"
  by (cases x) simp_all

lemma orElse_over_None: "orElse a (over None x) = orElse a x"
  by (cases x) simp_all

text \<open>
  C7: whatever configuration the caller supplies, the policy of the interpreter that
  \<open>createInterpreter\<close> returns has \<open>enableLinting = True\<close> and
  \<open>allowUnsafeOperations = False\<close>, and every other key is the caller's where the caller
  gave one and the default otherwise.
\<close>

theorem createInterpreter_policy:
  "thisConfig (snd (createInterpreter amb h cfg)) (fst (createInterpreter amb h cfg)) =
     \<lparr>pythonPath = orElse ''python3'' (p_pythonPath cfg),
      timeout = orElse 30000 (p_timeout cfg),
      maxOutputLines = orElse 1000 (p_maxOutputLines cfg),
      enableLinting = True,
      allowUnsafeOperations = False,
      workingDirectory = orElse (process_cwd amb) (p_workingDirectory cfg),
      environment = orElse (process_env amb) (p_environment cfg)\<rparr>"
  by (simp add: createInterpreter_def new_PythonInterpreter_def newConfig_def thisConfig_def
      assign_def spread_def orElse_over_Some orElse_over_None Let_def)

section \<open>Validity of a lint result\<close>

text \<open>A line number beyond \<open>2^53\<close> is rounded as the engine rounds it.\<close>

lemma bitLength_54: "bitLength 9007199254740993 = 54"
  by (simp add: bitLength.simps)

lemma parseInt_rounds: "parseInt ''9007199254740993'' = Num 9007199254740992"
  by (simp add: parseInt_def toNumber_def digitVal_def bitLength_54 Let_def)

lemma foldl_checkSyntax_keeps:
  "cs_promise st \<noteq> Pending \<Longrightarrow> cs_promise (foldl checkSyntax_on st evs) = cs_promise st"
proof (induction evs arbitrary: st)
  case Nil
  then show ?case by simp
next
  case (Cons e evs)
  have "cs_promise (checkSyntax_on st e) = cs_promise st"
    using Cons.prems by (cases e; cases "cs_promise st") (simp_all add: Let_def)
  with Cons show ?case by simp
qed

lemma checkSyntax_on_terminal:
  "isTerminal e \<Longrightarrow> cs_promise (checkSyntax_on st e) \<noteq> Pending"
  by (cases e; cases "cs_promise st") (simp_all add: Let_def)

lemma foldl_checkSyntax_settles:
  "\<exists>e \<in> set evs. isTerminal e \<Longrightarrow> cs_promise (foldl checkSyntax_on st evs) \<noteq> Pending"
proof (induction evs arbitrary: st)
  case Nil
  then show ?case by simp
next
  case (Cons e evs)
  show ?case
  proof (cases "isTerminal e")
    case True
    then have "cs_promise (checkSyntax_on st e) \<noteq> Pending"
      by (rule checkSyntax_on_terminal)
    then show ?thesis using foldl_checkSyntax_keeps by simp
  next
    case False
    with Cons.prems have "\<exists>e \<in> set evs. isTerminal e" by simp
    then show ?thesis using Cons.IH by simp
  qed
qed

text \<open>
  \<open>lintCode\<close> returns: its promise is never rejected, and it is resolved as soon as the
  compile-check process has closed or failed to start (or the file could not be written).
\<close>

lemma lintCode_never_rejects: "fst (lintCode w self code strict) \<noteq> Rejected e"
  by (auto simp: lintCode_def Let_def split: sum.splits promise.splits)

text \<open>
  When \<^verbatim>\<open>spawn\<close> throws in the compile check, the \<^verbatim>\<open>catch\<close> clause of \<open>lintCode\<close>
  answers with an invalid result that holds the one error it pushes.
\<close>

lemma lintCode_spawn_throws:
  "lint_tempFile w = Inr f \<Longrightarrow> lint_process w = Inl e \<Longrightarrow>
   fst (lintCode w self code strict) =
     Resolved \<lparr>isValid = False,
               errors = [\<lparr>line = Num 1, column = 1,
                          message = ''Linting failed: '' @ errorMessage e,
                          severity = ''error'', rule = None\<rparr>],
               warnings = []\<rparr>"
  by (simp add: lintCode_def checkSyntax_def Let_def)

lemma lintCode_settles:
  assumes "\<exists>e \<in> set (lint_events w). isTerminal e"
  shows "\<exists>r. fst (lintCode w self code strict) = Resolved r"
proof -
  from assms have "lint_events w \<noteq> []" by auto
  then have p: "lint_process w = Inr (lint_events w)" by (rule lint_events_process)
  have "checkSyntax (lint_process w) \<noteq> Pending"
    unfolding p checkSyntax_def using foldl_checkSyntax_settles [OF assms] by simp
  then show ?thesis
    by (auto simp: lintCode_def Let_def split: sum.splits promise.splits)
qed

lemma syntaxErrorLint_result:
  "fst (lintCode syntaxErrorLint \<lparr>l_pythonPath = ''python3'', l_tempDir = ''/tmp''\<rparr>
          ''import os\<newline>print(1'' None) =
   Resolved \<lparr>isValid = False,
             errors = [\<lparr>line = Num 1, column = 1, message = ''SyntaxError: invalid syntax'',
                        severity = ''error'', rule = Some ''syntax-error''\<rparr>],
             warnings = [\<lparr>w_line = 1, w_column = 1,
                          w_message = ''Potentially dangerous: os module import'',
                          w_rule = Some ''security-warning''\<rparr>]\<rparr>"
  by (simp add: lintCode_def syntaxErrorLint_def checkSyntax_def Let_def trim_def isSpace_def
      lineMatchHere_def performBasicSecurityCheck_def dangerousPatterns_def matchHere_def)

text \<open>
  C8: the result that \<open>lintCode\<close> returns is valid if and only if its list of errors is
  empty, for every snippet and every \<open>strict\<close> option; and the heuristic stage has no
  part in it: with any other snippet text and any other \<open>strict\<close> option, hence any other
  warnings, the same outcome of the compile check gives the same errors and the same
  validity.
\<close>

theorem lintCode_valid_iff_no_errors:
  assumes "fst (lintCode w self code strict) = Resolved r"
  shows "isValid r = (errors r = []) \<and>
         (\<exists>r'. fst (lintCode w self code' strict') = Resolved r' \<and>
               isValid r' = isValid r \<and> errors r' = errors r)"
  using assms
  by (auto simp: lintCode_def Let_def split: sum.splits promise.splits)

theorem lintCode_valid_iff_no_errors_witness:
  "fst (lintCode syntaxErrorLint \<lparr>l_pythonPath = ''python3'', l_tempDir = ''/tmp''\<rparr>
          ''import os\<newline>print(1'' None) =
   Resolved \<lparr>isValid = False,
             errors = [\<lparr>line = Num 1, column = 1, message = ''SyntaxError: invalid syntax'',
                        severity = ''error'', rule = Some ''syntax-error''\<rparr>],
             warnings = [\<lparr>w_line = 1, w_column = 1,
                          w_message = ''Potentially dangerous: os module import'',
                          w_rule = Some ''security-warning''\<rparr>]\<rparr>
   \<and> (\<exists>r'. fst (lintCode syntaxErrorLint
                   \<lparr>l_pythonPath = ''python3'', l_tempDir = ''/tmp''\<rparr>
                   ''print(1'' (Some False)) = Resolved r' \<and> isValid r' = False)"
proof -
  note r = syntaxErrorLint_result
  from lintCode_valid_iff_no_errors [OF r, of "''print(1''" "Some False"] r
  show ?thesis by auto
qed

section \<open>The lint gate of executeCode\<close>

lemma safeInterpreter_eq:
  "safeInterpreter = \<lparr>config = 1, linter = \<lparr>l_pythonPath = ''python3'', l_tempDir = ''/tmp''\<rparr>,
     tempDir = ''/tmp''\<rparr>"
  by (simp add: safeInterpreter_def createInterpreter_def new_PythonInterpreter_def
      newConfig_def assign_def spread_def noConfig_def someAmbient_def someHeap_def Let_def)

lemma safe_linter:
  "linter safeInterpreter = \<lparr>l_pythonPath = ''python3'', l_tempDir = ''/tmp''\<rparr>"
  by (simp add: safeInterpreter_eq)

lemma safe_thisConfig:
  "thisConfig safeHeap safeInterpreter =
     \<lparr>pythonPath = ''python3'', timeout = 30000, maxOutputLines = 1000, enableLinting = True,
      allowUnsafeOperations = False, workingDirectory = ''/work'', environment = 0\<rparr>"
  by (simp add: safeInterpreter_def safeHeap_def createInterpreter_def
      new_PythonInterpreter_def newConfig_def thisConfig_def
      assign_def spread_def noConfig_def someAmbient_def someHeap_def Let_def)

lemma safeHeap_envs: "envs safeHeap = (\<lambda>a. [''PATH'' \<mapsto> ''/usr/bin''])"
  by (simp add: safeHeap_def createInterpreter_def
      new_PythonInterpreter_def newConfig_def 
      assign_def spread_def noConfig_def someAmbient_def someHeap_def Let_def)

text \<open>
  C3: when the policy has \<open>enableLinting\<close> and the call does not set \<open>sanitize\<close> to
  \<open>false\<close>, \<open>executeCode\<close> runs the lint pass first.  If the lint result is invalid,
  the call resolves to a failed result, exit code 1, empty stdout, stderr the error
  messages joined by line feeds, and its effects are those of the lint pass alone, whose
  only process is the compile check: no script file is written and no interpreter is
  spawned.  If the lint result is valid, whatever its warnings, the call goes on to the
  execution and its result is the execution's.
\<close>

theorem executeCode_lint_gate:
  assumes "enableLinting (thisConfig h self)"
    and "opt_sanitize options \<noteq> Some False"
    and "lintCode (lint_outside w) (linter self) code
           (Some (\<not> allowUnsafeOperations (thisConfig h self))) = (Resolved r, eff)"
  shows "(\<not> isValid r \<longrightarrow>
            executeCode w h self code options =
              (Resolved \<lparr>success = False, stdout = [],
                         stderr = join [CHR 0x0A] (map message (errors r)),
                         exitCode = 1, executionTime = returnTime w - startTime w\<rparr>, eff))
       \<and> (isValid r \<longrightarrow>
            executeCode w h self code options =
              (fst (run w h self code options), eff @ snd (run w h self code options)))
       \<and> (eff = [] \<or>
          (\<exists>f. eff = [WriteFile f code,
                      SpawnProcess \<lparr>sp_command = l_pythonPath (linter self),
                                    sp_args = [''-m'', ''py_compile'', f],
                                    sp_cwd = None, sp_env = None\<rparr>]))"
proof -
  have 1: "\<not> isValid r \<longrightarrow>
            executeCode w h self code options =
              (Resolved \<lparr>success = False, stdout = [],
                         stderr = join [CHR 0x0A] (map message (errors r)),
                         exitCode = 1, executionTime = returnTime w - startTime w\<rparr>, eff)"
    using assms by (simp add: executeCode_def Let_def)
  have 2: "isValid r \<longrightarrow>
            executeCode w h self code options =
              (fst (run w h self code options), eff @ snd (run w h self code options))"
    using assms by (simp add: executeCode_def Let_def split_beta)
  have 3: "eff = [] \<or>
          (\<exists>f. eff = [WriteFile f code,
                      SpawnProcess \<lparr>sp_command = l_pythonPath (linter self),
                                    sp_args = [''-m'', ''py_compile'', f],
                                    sp_cwd = None, sp_env = None\<rparr>])"
    using assms(3) by (auto simp: lintCode_def Let_def split: sum.splits promise.splits)
  from 1 2 3 show ?thesis by blast
qed

lemma syntaxErrorLint_full:
  "lintCode syntaxErrorLint \<lparr>l_pythonPath = ''python3'', l_tempDir = ''/tmp''\<rparr>
          ''print(1'' (Some True) =
   (Resolved \<lparr>isValid = False,
             errors = [\<lparr>line = Num 1, column = 1, message = ''SyntaxError: invalid syntax'',
                        severity = ''error'', rule = Some ''syntax-error''\<rparr>],
             warnings = []\<rparr>,
    [WriteFile ''/tmp/python_lint_1.py'' ''print(1'',
     SpawnProcess \<lparr>sp_command = ''python3'',
                    sp_args = [''-m'', ''py_compile'', ''/tmp/python_lint_1.py''],
                    sp_cwd = None, sp_env = None\<rparr>])"
  by (simp add: lintCode_def syntaxErrorLint_def checkSyntax_def Let_def trim_def isSpace_def
      lineMatchHere_def performBasicSecurityCheck_def dangerousPatterns_def matchHere_def)

lemma someWorld_lint_import_os:
  "lintCode (lint_outside someWorld) \<lparr>l_pythonPath = ''python3'', l_tempDir = ''/tmp''\<rparr>
          ''import os'' (Some True) =
   (Resolved \<lparr>isValid = True, errors = [],
             warnings = [\<lparr>w_line = 1, w_column = 1,
                          w_message = ''Potentially dangerous: os module import'',
                          w_rule = Some ''security-warning''\<rparr>]\<rparr>,
    [WriteFile ''/tmp/python_lint_1.py'' ''import os'',
     SpawnProcess \<lparr>sp_command = ''python3'',
                    sp_args = [''-m'', ''py_compile'', ''/tmp/python_lint_1.py''],
                    sp_cwd = None, sp_env = None\<rparr>])"
  by (simp add: lintCode_def someWorld_def checkSyntax_def Let_def 
      performBasicSecurityCheck_def dangerousPatterns_def matchHere_def isSpace_def)

theorem executeCode_lint_gate_witness:
  "executeCode (someWorld\<lparr>lint_outside := syntaxErrorLint\<rparr>) safeHeap safeInterpreter
     ''print(1'' noOptions =
     (Resolved \<lparr>success = False, stdout = [], stderr = ''SyntaxError: invalid syntax'',
                exitCode = 1, executionTime = 1\<rparr>,
      [WriteFile ''/tmp/python_lint_1.py'' ''print(1'',
       SpawnProcess \<lparr>sp_command = ''python3'',
                      sp_args = [''-m'', ''py_compile'', ''/tmp/python_lint_1.py''],
                      sp_cwd = None, sp_env = None\<rparr>])
   \<and> fst (executeCode someWorld safeHeap safeInterpreter ''import os'' noOptions) =
       fst (run someWorld safeHeap safeInterpreter ''import os'' noOptions)"
proof -
  have en: "enableLinting (thisConfig safeHeap safeInterpreter)"
    by (simp add: safe_thisConfig)
  have san: "opt_sanitize noOptions \<noteq> Some False"
    by (simp add: noOptions_def)
  have l1: "lintCode (lint_outside (someWorld\<lparr>lint_outside := syntaxErrorLint\<rparr>))
              (linter safeInterpreter) ''print(1''
              (Some (\<not> allowUnsafeOperations (thisConfig safeHeap safeInterpreter))) =
            (Resolved \<lparr>isValid = False,
               errors = [\<lparr>line = Num 1, column = 1, message = ''SyntaxError: invalid syntax'',
                          severity = ''error'', rule = Some ''syntax-error''\<rparr>],
               warnings = []\<rparr>,
             [WriteFile ''/tmp/python_lint_1.py'' ''print(1'',
              SpawnProcess \<lparr>sp_command = ''python3'',
                  sp_args = [''-m'', ''py_compile'', ''/tmp/python_lint_1.py''],
                  sp_cwd = None, sp_env = None\<rparr>])"
    using syntaxErrorLint_full by (simp add: safe_thisConfig safe_linter)
  have l2: "lintCode (lint_outside someWorld) (linter safeInterpreter) ''import os''
              (Some (\<not> allowUnsafeOperations (thisConfig safeHeap safeInterpreter))) =
            (Resolved \<lparr>isValid = True, errors = [],
               warnings = [\<lparr>w_line = 1, w_column = 1,
                          w_message = ''Potentially dangerous: os module import'',
                          w_rule = Some ''security-warning''\<rparr>]\<rparr>,
             [WriteFile ''/tmp/python_lint_1.py'' ''import os'',
              SpawnProcess \<lparr>sp_command = ''python3'',
                  sp_args = [''-m'', ''py_compile'', ''/tmp/python_lint_1.py''],
                  sp_cwd = None, sp_env = None\<rparr>])"
    using someWorld_lint_import_os by (simp add: safe_thisConfig safe_linter)
  from executeCode_lint_gate [OF en san l1] executeCode_lint_gate [OF en san l2]
  show ?thesis by (simp add: someWorld_def)
qed

section \<open>Settling of the promise of an execution\<close>

lemma settle_keeps: "p \<noteq> Pending \<Longrightarrow> settle p q = p"
  by (cases p) simp_all

lemma promise_emit: "promise (emit e st) = promise st"
  by (simp add: emit_def)

lemma promise_release: "promise (release st) = promise st"
  by (simp add: release_def)

lemma streaming_on_settled:
  "promise st \<noteq> Pending \<Longrightarrow> promise (streaming_on w cfg st e) = promise st"
  by (cases e; cases "snd e") (auto simp: Let_def settle_keeps promise_emit promise_release)

lemma directly_on_settled:
  "promise st \<noteq> Pending \<Longrightarrow> promise (directly_on w cfg st e) = promise st"
  by (cases e; cases "snd e") (auto simp: Let_def settle_keeps promise_release)

lemma streaming_on_nonterminal:
  "\<not> isTerminal (snd e) \<Longrightarrow> promise (streaming_on w cfg st e) = promise st"
  by (cases e; cases "snd e") (auto simp: Let_def promise_emit)

lemma directly_on_nonterminal:
  "\<not> isTerminal (snd e) \<Longrightarrow> promise (directly_on w cfg st e) = promise st"
  by (cases e; cases "snd e") (auto simp: Let_def)

lemma foldl_settled:
  assumes step: "\<And>st e. promise st \<noteq> Pending \<Longrightarrow> promise (f st e) = promise st"
  shows "promise st \<noteq> Pending \<Longrightarrow> promise (foldl f st evs) = promise st"
proof (induction evs arbitrary: st)
  case Nil
  then show ?case by simp
next
  case (Cons e evs)
  then show ?case using step [of st e] by simp
qed

lemma foldl_nonterminal:
  assumes step: "\<And>st e. \<not> isTerminal (snd e) \<Longrightarrow> promise (f st e) = promise st"
  shows "\<forall>e \<in> set evs. \<not> isTerminal (snd e) \<Longrightarrow> promise (foldl f st evs) = promise st"
proof (induction evs arbitrary: st)
  case Nil
  then show ?case by simp
next
  case (Cons e evs)
  then show ?case using step [of e st] by simp
qed

lemma streaming_pre_pending:
  assumes "\<forall>e \<in> set pre. \<not> isTerminal (snd e)" and "promise st = Pending"
  shows "promise (foldl (streaming_on w cfg) st pre) = Pending"
  using foldl_nonterminal [of "streaming_on w cfg", OF streaming_on_nonterminal assms(1)]
    assms(2) by simp

lemma directly_pre_pending:
  assumes "\<forall>e \<in> set pre. \<not> isTerminal (snd e)" and "promise st = Pending"
  shows "promise (foldl (directly_on w cfg) st pre) = Pending"
  using foldl_nonterminal [of "directly_on w cfg", OF directly_on_nonterminal assms(1)]
    assms(2) by simp

lemma streaming_close_first:
  assumes "\<forall>e \<in> set pre. \<not> isTerminal (snd e)" and "promise st = Pending"
  shows "promise (foldl (streaming_on w cfg) st (pre @ (t, Close code) # post)) =
         Resolved (closeResult (release (foldl (streaming_on w cfg) st pre)) code
                     (t - startTime w))"
proof -
  let ?st1 = "foldl (streaming_on w cfg) st pre"
  let ?st2 = "streaming_on w cfg ?st1 (t, Close code)"
  have p2: "promise ?st2 = Resolved (closeResult (release ?st1) code (t - startTime w))"
    using streaming_pre_pending [OF assms] by (simp add: Let_def promise_emit promise_release)
  have "promise (foldl (streaming_on w cfg) ?st2 post) = promise ?st2"
    using foldl_settled [of "streaming_on w cfg", OF streaming_on_settled] p2 by simp
  with p2 show ?thesis by simp
qed

lemma directly_close_first:
  assumes "\<forall>e \<in> set pre. \<not> isTerminal (snd e)" and "promise st = Pending"
  shows "promise (foldl (directly_on w cfg) st (pre @ (t, Close code) # post)) =
         Resolved (closeResult (release (foldl (directly_on w cfg) st pre)) code
                     (t - startTime w))"
proof -
  let ?st1 = "foldl (directly_on w cfg) st pre"
  let ?st2 = "directly_on w cfg ?st1 (t, Close code)"
  have p2: "promise ?st2 = Resolved (closeResult (release ?st1) code (t - startTime w))"
    using directly_pre_pending [OF assms] by (simp add: Let_def promise_release)
  have "promise (foldl (directly_on w cfg) ?st2 post) = promise ?st2"
    using foldl_settled [of "directly_on w cfg", OF directly_on_settled] p2 by simp
  with p2 show ?thesis by simp
qed

lemma streaming_error_first:
  assumes "\<forall>e \<in> set pre. \<not> isTerminal (snd e)" and "promise st = Pending"
    and "errorListener w"
  shows "promise (foldl (streaming_on w cfg) st (pre @ (t, ProcError msg) # post)) =
         Rejected (Error msg)"
proof -
  let ?st1 = "foldl (streaming_on w cfg) st pre"
  let ?st2 = "streaming_on w cfg ?st1 (t, ProcError msg)"
  have p2: "promise ?st2 = Rejected (Error msg)"
    using streaming_pre_pending [OF assms(1,2)] assms(3)
    by (simp add: Let_def promise_emit promise_release)
  have "promise (foldl (streaming_on w cfg) ?st2 post) = promise ?st2"
    using foldl_settled [of "streaming_on w cfg", OF streaming_on_settled] p2 by simp
  with p2 show ?thesis by simp
qed

lemma directly_error_first:
  assumes "\<forall>e \<in> set pre. \<not> isTerminal (snd e)" and "promise st = Pending"
  shows "promise (foldl (directly_on w cfg) st (pre @ (t, ProcError msg) # post)) =
         Resolved \<lparr>success = False, stdout = x_stdout (foldl (directly_on w cfg) st pre),
                   stderr = x_stderr (foldl (directly_on w cfg) st pre) @ msg,
                   exitCode = 1, executionTime = t - startTime w\<rparr>"
proof -
  let ?st1 = "foldl (directly_on w cfg) st pre"
  let ?st2 = "directly_on w cfg ?st1 (t, ProcError msg)"
  have p2: "promise ?st2 = Resolved \<lparr>success = False, stdout = x_stdout ?st1,
                   stderr = x_stderr ?st1 @ msg,
                   exitCode = 1, executionTime = t - startTime w\<rparr>"
    using directly_pre_pending [OF assms] by (simp add: Let_def promise_release release_def)
  have "promise (foldl (directly_on w cfg) ?st2 post) = promise ?st2"
    using foldl_settled [of "directly_on w cfg", OF directly_on_settled] p2 by simp
  with p2 show ?thesis by simp
qed

lemma promise_spawned: "promise (spawned req delay) = Pending"
  by (simp add: spawned_def)

text \<open>Every resolved result of either mode with \<open>success\<close> reports the exit code 0.\<close>

lemma settle_success_exit:
  assumes "\<forall>r. p = Resolved r \<longrightarrow> success r \<longrightarrow> exitCode r = 0"
    and "\<forall>r. q = Resolved r \<longrightarrow> success r \<longrightarrow> exitCode r = 0"
  shows "\<forall>r. settle p q = Resolved r \<longrightarrow> success r \<longrightarrow> exitCode r = 0"
  using assms by (cases p) simp_all

lemma closeResult_success_exit: "success (closeResult st code e) \<Longrightarrow> exitCode (closeResult st code e) = 0"
  by (simp add: closeResult_def)

lemma streaming_on_success_exit:
  assumes "\<forall>r. promise st = Resolved r \<longrightarrow> success r \<longrightarrow> exitCode r = 0"
  shows "\<forall>r. promise (streaming_on w cfg st e) = Resolved r \<longrightarrow> success r \<longrightarrow> exitCode r = 0"
proof (cases e)
  case (Pair now ev)
  show ?thesis
  proof (cases ev)
    case (Close code)
    have "\<forall>r. settle (promise st) (Resolved (closeResult (release st) code (now - startTime w)))
                = Resolved r \<longrightarrow> success r \<longrightarrow> exitCode r = 0"
      by (rule settle_success_exit [OF assms]) (simp add: closeResult_success_exit)
    then show ?thesis using Pair Close by (simp add: Let_def promise_emit promise_release)
  next
    case (ProcError msg)
    have "\<forall>r. settle (promise st) (Rejected (Error msg)) = Resolved r \<longrightarrow> success r \<longrightarrow> exitCode r = 0"
      by (rule settle_success_exit [OF assms]) simp
    then show ?thesis using Pair ProcError assms
      by (simp add: Let_def promise_emit promise_release)
  qed (use Pair assms in \<open>auto simp: Let_def promise_emit\<close>)
qed

lemma directly_on_success_exit:
  assumes "\<forall>r. promise st = Resolved r \<longrightarrow> success r \<longrightarrow> exitCode r = 0"
  shows "\<forall>r. promise (directly_on w cfg st e) = Resolved r \<longrightarrow> success r \<longrightarrow> exitCode r = 0"
proof (cases e)
  case (Pair now ev)
  show ?thesis
  proof (cases ev)
    case (Close code)
    have "\<forall>r. settle (promise st) (Resolved (closeResult (release st) code (now - startTime w)))
                = Resolved r \<longrightarrow> success r \<longrightarrow> exitCode r = 0"
      by (rule settle_success_exit [OF assms]) (simp add: closeResult_success_exit)
    then show ?thesis using Pair Close by (simp add: Let_def promise_release)
  next
    case (ProcError msg)
    have "\<forall>r. settle (promise st)
                 (Resolved \<lparr>success = False, stdout = x_stdout (release st),
                           stderr = x_stderr (release st) @ msg, exitCode = 1,
                           executionTime = now - startTime w\<rparr>) = Resolved r
               \<longrightarrow> success r \<longrightarrow> exitCode r = 0"
      by (rule settle_success_exit [OF assms]) auto
    then show ?thesis using Pair ProcError by (simp add: Let_def promise_release)
  qed (use Pair assms in \<open>auto simp: Let_def\<close>)
qed

lemma foldl_success_exit:
  assumes step: "\<And>st e. \<forall>r. promise st = Resolved r \<longrightarrow> success r \<longrightarrow> exitCode r = 0 \<Longrightarrow>
                        \<forall>r. promise (f st e) = Resolved r \<longrightarrow> success r \<longrightarrow> exitCode r = 0"
  shows "\<forall>r. promise st = Resolved r \<longrightarrow> success r \<longrightarrow> exitCode r = 0 \<Longrightarrow>
         \<forall>r. promise (foldl f st evs) = Resolved r \<longrightarrow> success r \<longrightarrow> exitCode r = 0"
proof (induction evs arbitrary: st)
  case Nil
  then show ?case by simp
next
  case (Cons e evs)
  from step [OF Cons.prems] have "\<forall>r. promise (f st e) = Resolved r \<longrightarrow> success r \<longrightarrow> exitCode r = 0" .
  from Cons.IH [OF this] show ?case by simp
qed

lemma run_success_exit:
  "fst (run w h self code options) = Resolved r \<Longrightarrow> success r \<Longrightarrow> exitCode r = 0"
proof -
  assume a: "fst (run w h self code options) = Resolved r" "success r"
  have s: "\<forall>r. promise (foldl (streaming_on w cfg) (spawned req d) evs) = Resolved r
             \<longrightarrow> success r \<longrightarrow> exitCode r = 0" for cfg req d evs
    by (rule foldl_success_exit [of "streaming_on w cfg", OF streaming_on_success_exit])
       (simp_all add: promise_spawned)
  have d: "\<forall>r. promise (foldl (directly_on w cfg) (spawned req d) evs) = Resolved r
             \<longrightarrow> success r \<longrightarrow> exitCode r = 0" for cfg req d evs
    by (rule foldl_success_exit [of "directly_on w cfg", OF directly_on_success_exit])
       (simp_all add: promise_spawned)
  show ?thesis
  proof (cases "exec_tempFile w")
    case (Inl e)
    with a show ?thesis by (auto simp: run_def Let_def)
  next
    case (Inr path)
    show ?thesis
    proof (cases "exec_process w")
      case (Inl e)
      with a Inr show ?thesis
        by (auto simp: run_def Let_def executeWithStreaming_threw executeDirectly_threw
            threw_def split: if_splits)
    next
      case evs: (Inr evs)
      with a s d Inr show ?thesis
        by (auto simp: run_def Let_def executeWithStreaming_spawned executeDirectly_spawned
            split: if_splits)
    qed
  qed
qed

lemma executeCode_success_exit:
  "fst (executeCode w h self code options) = Resolved r \<Longrightarrow> success r \<Longrightarrow> exitCode r = 0"
  using run_success_exit [of w h self code options r]
  by (auto simp: executeCode_def Let_def split_beta split: if_splits prod.splits promise.splits)

section \<open>Exit code and success\<close>

text \<open>
  C4, as stated, fails: a process ended by a signal closes with the exit code
  \<^verbatim>\<open>null\<close>; the result then has \<open>success = False\<close>, since \<^verbatim>\<open>null === 0\<close> is
  false, and the reported \<open>exitCode\<close> is 0, from \<^verbatim>\<open>code || 0\<close>.  Here the timer
  fires and the process is killed.
\<close>

theorem null_exit_code_fails_with_code_0:
  "fst (executeCode (someWorld\<lparr>exec_process := Inr [(105, TimerFired), (110, Close None)]\<rparr>)
          safeHeap safeInterpreter ''print(1)'' noOptions) =
   Resolved \<lparr>success = False, stdout = [], stderr = [], exitCode = 0, executionTime = 10\<rparr>"
  by (simp add: executeCode_def run_def safe_thisConfig safe_linter someWorld_def noOptions_def
      lintCode_def checkSyntax_def executeDirectly_def spawned_def release_def closeResult_def
      performBasicSecurityCheck_def dangerousPatterns_def matchHere_def isSpace_def Let_def)

text \<open>
  C4, amended: on process closure \<open>success\<close> is true exactly when the exit code is the
  number 0.  A missing exit code is normalized to 0 in the reported \<open>exitCode\<close> only, not
  for the success check, where it counts as a failure.  Consequently every result with
  \<open>success\<close> reports the exit code 0; the converse does not hold.
\<close>

theorem close_success_and_exit_code:
  "(exec_tempFile w = Inr path \<and> exec_events w = pre @ (t, Close code) # post \<and>
    (\<forall>e \<in> set pre. \<not> isTerminal (snd e)) \<longrightarrow>
      (\<exists>r. fst (run w h self src options) = Resolved r \<and>
            success r = (code = Some 0) \<and>
            exitCode r = (case code of None \<Rightarrow> 0 | Some c \<Rightarrow> c)))
   \<and> (fst (executeCode w h self src options) = Resolved r' \<and> success r' \<longrightarrow> exitCode r' = 0)"
proof -
  have A: "\<exists>r. fst (run w h self src options) = Resolved r \<and>
            success r = (code = Some 0) \<and>
            exitCode r = (case code of None \<Rightarrow> 0 | Some c \<Rightarrow> c)"
    if f: "exec_tempFile w = Inr path" and ev: "exec_events w = pre @ (t, Close code) # post"
      and pre: "\<forall>e \<in> set pre. \<not> isTerminal (snd e)"
  proof (cases "opt_stream options = Some True")
    case True
    have pr: "exec_process w = Inr (pre @ (t, Close code) # post)"
      using exec_events_process [of w] ev by simp
    from True show ?thesis
      using f streaming_close_first [OF pre promise_spawned]
      by (auto simp: run_def Let_def executeWithStreaming_spawned [OF pr] closeResult_def
          split: option.splits)
  next
    case False
    have pr: "exec_process w = Inr (pre @ (t, Close code) # post)"
      using exec_events_process [of w] ev by simp
    from False show ?thesis
      using f directly_close_first [OF pre promise_spawned]
      by (auto simp: run_def Let_def executeDirectly_spawned [OF pr] closeResult_def
          split: option.splits)
  qed
  have B: "fst (executeCode w h self src options) = Resolved r' \<and> success r' \<longrightarrow> exitCode r' = 0"
    using executeCode_success_exit by blast
  from A B show ?thesis by blast
qed

theorem close_success_and_exit_code_witness:
  "(\<exists>r. fst (run (someWorld\<lparr>exec_process := Inr [(105, TimerFired), (110, Close None)]\<rparr>)
               safeHeap safeInterpreter ''print(1)'' noOptions) = Resolved r \<and>
        success r = False \<and> exitCode r = 0)
   \<and> (\<exists>r. fst (executeCode someWorld safeHeap safeInterpreter ''print(1)'' noOptions) = Resolved r
          \<and> success r \<and> exitCode r = 0)"
proof -
  let ?w = "someWorld\<lparr>exec_process := Inr [(105, TimerFired), (110, Close None)]\<rparr>"
  have f: "exec_tempFile ?w = Inr ''/tmp/python_exec_1.py''" by (simp add: someWorld_def)
  have ev: "exec_events ?w = [(105, TimerFired)] @ (110, Close None) # []"
    by (simp add: exec_events_def)
  have pre: "\<forall>e \<in> set [(105::int, TimerFired)]. \<not> isTerminal (snd e)" by simp
  have 1: "\<exists>r. fst (run ?w safeHeap safeInterpreter ''print(1)'' noOptions) = Resolved r \<and>
        success r = False \<and> exitCode r = 0"
    using close_success_and_exit_code
      [of ?w "''/tmp/python_exec_1.py''" "[(105, TimerFired)]" 110 None "[]"
         safeHeap safeInterpreter "''print(1)''" noOptions] f ev pre
    by simp
  have r: "fst (executeCode someWorld safeHeap safeInterpreter ''print(1)'' noOptions) =
     Resolved \<lparr>success = True, stdout = ''Hello, World!\<newline>'', stderr = [], exitCode = 0,
               executionTime = 10\<rparr>"
    by (simp add: executeCode_def run_def safe_thisConfig safe_linter someWorld_def noOptions_def
      lintCode_def checkSyntax_def executeDirectly_def spawned_def release_def closeResult_def
      performBasicSecurityCheck_def dangerousPatterns_def matchHere_def isSpace_def Let_def)
  have 2: "\<exists>r. fst (executeCode someWorld safeHeap safeInterpreter ''print(1)'' noOptions) = Resolved r
          \<and> success r \<and> exitCode r = 0"
    using close_success_and_exit_code
      [of someWorld _ _ _ _ _ safeHeap safeInterpreter "''print(1)''" noOptions
          "\<lparr>success = True, stdout = ''Hello, World!\<newline>'', stderr = [], exitCode = 0,
               executionTime = 10\<rparr>"] r
    by simp
  from 1 2 show ?thesis by blast
qed

section \<open>Spawn faults\<close>

text \<open>
  In collect-all mode a spawn fault that arrives as the \<^verbatim>\<open>error\<close> event resolves the
  promise to a failed result whose stderr ends with the message of the fault.
\<close>

lemma run_directly_spawn_fault:
  assumes "opt_stream options \<noteq> Some True"
    and "exec_tempFile w = Inr path"
    and "exec_events w = pre @ (t, ProcError msg) # post"
    and "\<forall>e \<in> set pre. \<not> isTerminal (snd e)"
  shows "\<exists>out err. fst (run w h self code options) =
           Resolved \<lparr>success = False, stdout = out, stderr = err @ msg, exitCode = 1,
                     executionTime = t - startTime w\<rparr>"
proof -
  have pr: "exec_process w = Inr (pre @ (t, ProcError msg) # post)"
    using exec_events_process [of w] assms(3) by simp
  show ?thesis
    using assms(1,2) directly_error_first [OF assms(4) promise_spawned]
    by (simp add: run_def Let_def executeDirectly_spawned [OF pr])
qed


text \<open>
  Without a listener for \<^verbatim>\<open>error\<close> on the interpreter, the handler of the streaming
  mode throws out of \<^verbatim>\<open>emit\<close> and never reaches \<^verbatim>\<open>reject\<close>: the promise stays as it
  was.
\<close>

lemma streaming_spawn_fault_no_listener:
  "\<not> errorListener w \<Longrightarrow>
   promise (streaming_on w cfg st (t, ProcError msg)) = promise st \<and>
   uncaught (streaming_on w cfg st (t, ProcError msg)) = uncaught st @ [Error msg]"
  by (simp add: Let_def release_def)

text \<open>
  C1 fails in streaming mode.  When the lint gate is off (linting disabled in the policy,
  or \<open>sanitize: false\<close> in the call), the script file is written, and the first terminal
  event of the interpreter process is the \<^verbatim>\<open>error\<close> event of a spawn fault, the promise
  of \<open>executeCode\<close> with \<open>stream: true\<close> is rejected with that error: it does not resolve
  to a failed result.
\<close>

theorem streaming_spawn_fault_rejects:
  assumes "\<not> (enableLinting (thisConfig h self) \<and> opt_sanitize options \<noteq> Some False)"
    and "opt_stream options = Some True"
    and "exec_tempFile w = Inr path"
    and "exec_events w = pre @ (t, ProcError msg) # post"
    and "\<forall>e \<in> set pre. \<not> isTerminal (snd e)"
    and "errorListener w"
  shows "fst (executeCode w h self code options) = Rejected (Error msg)"
proof -
  have pr: "exec_process w = Inr (pre @ (t, ProcError msg) # post)"
    using exec_events_process [of w] assms(4) by simp
  have "fst (run w h self code options) = Rejected (Error msg)"
    using assms(2,3) streaming_error_first [OF assms(5) promise_spawned assms(6)]
    by (simp add: run_def Let_def executeWithStreaming_spawned [OF pr])
  with assms(1) show ?thesis by (auto simp: executeCode_def Let_def)
qed

theorem streaming_spawn_fault_rejects_witness:
  "fst (executeCode (someWorld\<lparr>exec_process := Inr [(105, ProcError ''spawn python3 ENOENT'')]\<rparr>)
          safeHeap safeInterpreter ''print(1)''
          (noOptions\<lparr>opt_stream := Some True, opt_sanitize := Some False\<rparr>)) =
   Rejected (Error ''spawn python3 ENOENT'')"
proof -
  let ?w = "someWorld\<lparr>exec_process := Inr [(105, ProcError ''spawn python3 ENOENT'')]\<rparr>"
  let ?o = "noOptions\<lparr>opt_stream := Some True, opt_sanitize := Some False\<rparr>"
  have 1: "\<not> (enableLinting (thisConfig safeHeap safeInterpreter) \<and> opt_sanitize ?o \<noteq> Some False)"
    by simp
  have 2: "opt_stream ?o = Some True" by simp
  have 3: "exec_tempFile ?w = Inr ''/tmp/python_exec_1.py''" by (simp add: someWorld_def)
  have 4: "exec_events ?w = [] @ (105, ProcError ''spawn python3 ENOENT'') # []"
    by (simp add: exec_events_def)
  have 5: "\<forall>e \<in> set ([] :: (int \<times> proc_event) list). \<not> isTerminal (snd e)" by simp
  have 6: "errorListener ?w" by (simp add: someWorld_def)
  from streaming_spawn_fault_rejects [OF 1 2 3 4 5 6] show ?thesis .
qed

section \<open>The kill timer\<close>

lemma effects_emit: "effects (emit e st) = effects st @ [Emit e]"
  by (simp add: emit_def)

lemma streaming_on_effects_grow: "set (effects st) \<subseteq> set (effects (streaming_on w cfg st e))"
  by (cases e; cases "snd e") (auto simp: Let_def emit_def release_def)

lemma directly_on_effects_grow: "set (effects st) \<subseteq> set (effects (directly_on w cfg st e))"
  by (cases e; cases "snd e") (auto simp: Let_def release_def)

lemma foldl_effects_grow:
  assumes step: "\<And>st e. set (effects st) \<subseteq> set (effects (f st e))"
  shows "set (effects st) \<subseteq> set (effects (foldl f st evs))"
proof (induction evs arbitrary: st)
  case Nil
  show ?case by simp
next
  case (Cons e evs)
  have "set (effects st) \<subseteq> set (effects (f st e))" by (rule step)
  also have "\<dots> \<subseteq> set (effects (foldl f (f st e) evs))" by (rule Cons.IH)
  finally show ?case by simp
qed

text \<open>
  C2 fails.  The per-call timeout is taken only when it is not 0, a per-call 0 giving the
  policy's timeout; and \<^verbatim>\<open>setTimeout\<close> is called with the effective timeout in every
  execution that has spawned its process (the script file written, \<^verbatim>\<open>spawn\<close> returned),
  also when that timeout is 0; when the timer fires first, the process is killed.
\<close>

theorem timer_always_armed:
  assumes "exec_tempFile w = Inr path" and "exec_process w = Inr evs"
  shows "SetTimeout (effectiveTimeout options (thisConfig h self))
           \<in> set (snd (run w h self code options))
       \<and> effectiveTimeout (options\<lparr>opt_timeout := Some 0\<rparr>) cfg = timeout cfg
       \<and> effectiveTimeout (options\<lparr>opt_timeout := None\<rparr>) cfg = timeout cfg
       \<and> ((\<exists>t rest. exec_events w = (t, TimerFired) # rest) \<longrightarrow>
            Kill \<in> set (snd (run w h self code options)))"
proof -
  let ?cfg = "thisConfig h self"
  have s: "set (effects st) \<subseteq> set (effects (foldl (streaming_on w ?cfg) st evs))" for st evs
    by (rule foldl_effects_grow [of "streaming_on w ?cfg", OF streaming_on_effects_grow])
  have d: "set (effects st) \<subseteq> set (effects (foldl (directly_on w ?cfg) st evs))" for st evs
    by (rule foldl_effects_grow [of "directly_on w ?cfg", OF directly_on_effects_grow])
  have 1: "SetTimeout (effectiveTimeout options ?cfg) \<in> set (snd (run w h self code options))"
  proof (cases "opt_stream options = Some True")
    case True
    have "SetTimeout (effectiveTimeout options ?cfg) \<in> set (effects (spawned req (effectiveTimeout options ?cfg)))" for req
      by (simp add: spawned_def)
    with s True assms(1) show ?thesis
      by (auto simp: run_def Let_def executeWithStreaming_spawned [OF assms(2)])
  next
    case False
    have "SetTimeout (effectiveTimeout options ?cfg) \<in> set (effects (spawned req (effectiveTimeout options ?cfg)))" for req
      by (simp add: spawned_def)
    with d False assms(1) show ?thesis
      by (auto simp: run_def Let_def executeDirectly_spawned [OF assms(2)])
  qed
  have 2: "effectiveTimeout (options\<lparr>opt_timeout := Some 0\<rparr>) cfg = timeout cfg"
    by (simp add: effectiveTimeout_def)
  have 3: "effectiveTimeout (options\<lparr>opt_timeout := None\<rparr>) cfg = timeout cfg"
    by (simp add: effectiveTimeout_def)
  have 4: "Kill \<in> set (snd (run w h self code options))"
    if ev: "exec_events w = (t, TimerFired) # rest" for t rest
  proof (cases "opt_stream options = Some True")
    case True
    have pr: "exec_process w = Inr ((t, TimerFired) # rest)"
      using exec_events_process [of w] ev by simp
    have k: "Kill \<in> set (effects (streaming_on w ?cfg (spawned req dl) (t, TimerFired)))"
      for req dl by (simp add: spawned_def emit_def)
    have "Kill \<in> set (effects (foldl (streaming_on w ?cfg) (spawned req dl)
                                   ((t, TimerFired) # rest)))" for req dl
      using k [of req dl] s [of "streaming_on w ?cfg (spawned req dl) (t, TimerFired)" rest]
      by (auto simp del: streaming_on.simps)
    with True assms(1) show ?thesis
      by (simp add: run_def Let_def executeWithStreaming_spawned [OF pr] del: foldl.simps)
  next
    case False
    have pr: "exec_process w = Inr ((t, TimerFired) # rest)"
      using exec_events_process [of w] ev by simp
    have k: "Kill \<in> set (effects (directly_on w ?cfg (spawned req dl) (t, TimerFired)))"
      for req dl by (simp add: spawned_def)
    have "Kill \<in> set (effects (foldl (directly_on w ?cfg) (spawned req dl)
                                   ((t, TimerFired) # rest)))" for req dl
      using k [of req dl] d [of "directly_on w ?cfg (spawned req dl) (t, TimerFired)" rest]
      by (auto simp del: directly_on.simps)
    with False assms(1) show ?thesis
      by (simp add: run_def Let_def executeDirectly_spawned [OF pr] del: foldl.simps)
  qed
  from 1 2 3 4 show ?thesis by blast
qed


lemma unsafe_thisConfig:
  "thisConfig unsafeHeap unsafeInterpreter =
     \<lparr>pythonPath = ''python3'', timeout = 0, maxOutputLines = 9007199254740991,
      enableLinting = False, allowUnsafeOperations = True, workingDirectory = ''/work'',
      environment = 0\<rparr>"
  by (simp add: unsafeInterpreter_def unsafeHeap_def createUnsafeInterpreter_def
      new_PythonInterpreter_def newConfig_def thisConfig_def
      assign_def spread_def noConfig_def someAmbient_def someHeap_def Let_def)

theorem timer_always_armed_witness:
  "SetTimeout 0 \<in> set (snd (run (someWorld\<lparr>exec_process := Inr [(100, TimerFired), (101, Close None)]\<rparr>)
                               unsafeHeap unsafeInterpreter ''print(1)'' noOptions))
   \<and> Kill \<in> set (snd (run (someWorld\<lparr>exec_process := Inr [(100, TimerFired), (101, Close None)]\<rparr>)
                          unsafeHeap unsafeInterpreter ''print(1)'' noOptions))"
proof -
  let ?w = "someWorld\<lparr>exec_process := Inr [(100, TimerFired), (101, Close None)]\<rparr>"
  have f: "exec_tempFile ?w = Inr ''/tmp/python_exec_1.py''" by (simp add: someWorld_def)
  have e: "effectiveTimeout noOptions (thisConfig unsafeHeap unsafeInterpreter) = 0"
    by (simp add: effectiveTimeout_def noOptions_def unsafe_thisConfig)
  have pr: "exec_process ?w = Inr [(100, TimerFired), (101, Close None)]" by simp
  have ev: "\<exists>t rest. exec_events ?w = (t, TimerFired) # rest"
    by (simp add: exec_events_def)
  from timer_always_armed [OF f pr, of noOptions unsafeHeap unsafeInterpreter "''print(1)''"]
    e ev
  show ?thesis by simp
qed

section \<open>The output limit of the streaming mode\<close>

lemma length_split: "length (split sep s) = Suc (length (filter (\<lambda>c. c = sep) s))"
  by (induction s) (auto split: list.splits)

lemma split_count: "int (length (split CHR 0x0A s)) - 1 = lineBoundaries s"
  by (simp add: length_split lineBoundaries_def)

lemma lineBoundaries_append: "lineBoundaries (a @ b) = lineBoundaries a + lineBoundaries b"
  by (simp add: lineBoundaries_def)

lemma lineBoundaries_nonneg: "0 \<le> lineBoundaries s"
  by (simp add: lineBoundaries_def)

lemma emittedData_append: "emittedData ty (xs @ ys) = emittedData ty xs @ emittedData ty ys"
  by (simp add: emittedData_def)

lemma emittedData_Nil: "emittedData ty [] = []"
  by (simp add: emittedData_def)

lemma emittedData_Cons: "emittedData ty (e # es) = dataOf ty e @ emittedData ty es"
  by (simp add: emittedData_def)

lemmas stream_simps =
  Let_def emit_def release_def emittedData_append emittedData_Nil emittedData_Cons
  split_count

lemma streaming_on_count:
  "outputLineCount (streaming_on w cfg st e) =
     outputLineCount st + lineBoundaries (concat (stdoutChunks [e]))"
  by (cases e; cases "snd e") (auto simp: stream_simps lineBoundaries_def)

lemma stdoutChunks_Cons: "stdoutChunks (e # evs) = stdoutChunks [e] @ stdoutChunks evs"
  by (cases e; cases "snd e") auto

lemma stderrChunks_Cons: "stderrChunks (e # evs) = stderrChunks [e] @ stderrChunks evs"
  by (cases e; cases "snd e") auto

lemma foldl_streaming_count:
  "outputLineCount (foldl (streaming_on w cfg) st evs) =
     outputLineCount st + lineBoundaries (concat (stdoutChunks evs))"
proof (induction evs arbitrary: st)
  case Nil
  show ?case by (simp add: lineBoundaries_def)
next
  case (Cons e evs)
  have "lineBoundaries (concat (stdoutChunks (e # evs))) =
        lineBoundaries (concat (stdoutChunks [e])) + lineBoundaries (concat (stdoutChunks evs))"
    by (subst stdoutChunks_Cons) (simp add: lineBoundaries_append)
  then show ?case using Cons.IH [of "streaming_on w cfg st e"] streaming_on_count [of w cfg st e]
    by simp
qed

lemma streaming_on_suppressed:
  assumes "\<not> allowUnsafeOperations cfg" and "maxOutputLines cfg \<le> outputLineCount st"
  shows "emittedData Stdout (effects (streaming_on w cfg st e)) = emittedData Stdout (effects st)"
proof (cases e)
  case (Pair now ev)
  show ?thesis
  proof (cases ev)
    case (StdoutData d)
    have "0 \<le> lineBoundaries d" by (rule lineBoundaries_nonneg)
    with assms Pair StdoutData show ?thesis by (simp add: stream_simps)
  qed (use Pair in \<open>auto simp: stream_simps\<close>)
qed

lemma foldl_streaming_suppressed:
  assumes "\<not> allowUnsafeOperations cfg"
  shows "maxOutputLines cfg \<le> outputLineCount st \<Longrightarrow>
         emittedData Stdout (effects (foldl (streaming_on w cfg) st evs)) =
         emittedData Stdout (effects st)"
proof (induction evs arbitrary: st)
  case Nil
  show ?case by simp
next
  case (Cons e evs)
  have "outputLineCount st \<le> outputLineCount (streaming_on w cfg st e)"
    using streaming_on_count [of w cfg st e] lineBoundaries_nonneg by simp
  with Cons.prems have "maxOutputLines cfg \<le> outputLineCount (streaming_on w cfg st e)" by simp
  from Cons.IH [OF this] streaming_on_suppressed [OF assms Cons.prems, of w e]
  show ?case by simp
qed

lemma streaming_on_unsafe:
  assumes "allowUnsafeOperations cfg"
  shows "emittedData Stdout (effects (streaming_on w cfg st e)) =
         emittedData Stdout (effects st) @ stdoutChunks [e]"
  using assms by (cases e; cases "snd e") (auto simp: stream_simps)

lemma foldl_streaming_unsafe:
  assumes "allowUnsafeOperations cfg"
  shows "emittedData Stdout (effects (foldl (streaming_on w cfg) st evs)) =
         emittedData Stdout (effects st) @ stdoutChunks evs"
proof (induction evs arbitrary: st)
  case Nil
  show ?case by simp
next
  case (Cons e evs)
  show ?case
    using Cons.IH [of "streaming_on w cfg st e"] streaming_on_unsafe [OF assms, of w st e]
    by (subst stdoutChunks_Cons) simp
qed

lemma streaming_on_stderr:
  "emittedData Stderr (effects (streaming_on w cfg st e)) =
   emittedData Stderr (effects st) @ stderrChunks [e]"
  by (cases e; cases "snd e") (auto simp: stream_simps)

lemma foldl_streaming_stderr:
  "emittedData Stderr (effects (foldl (streaming_on w cfg) st evs)) =
   emittedData Stderr (effects st) @ stderrChunks evs"
proof (induction evs arbitrary: st)
  case Nil
  show ?case by simp
next
  case (Cons e evs)
  show ?case
    using Cons.IH [of "streaming_on w cfg st e"] streaming_on_stderr [of w cfg st e]
    by (subst stderrChunks_Cons) simp
qed

lemma streaming_on_kill:
  "Kill \<in> set (effects (streaming_on w cfg st e)) \<Longrightarrow>
   Kill \<in> set (effects st) \<or> snd e = TimerFired"
  by (cases e; cases "snd e") (auto simp: stream_simps split: if_splits)

lemma foldl_streaming_kill:
  "Kill \<in> set (effects (foldl (streaming_on w cfg) st evs)) \<Longrightarrow>
   Kill \<in> set (effects st) \<or> (\<exists>t. (t, TimerFired) \<in> set evs)"
proof (induction evs arbitrary: st)
  case Nil
  then show ?case by simp
next
  case (Cons e evs)
  from Cons.IH [of "streaming_on w cfg st e"] Cons.prems
  have "Kill \<in> set (effects (streaming_on w cfg st e)) \<or> (\<exists>t. (t, TimerFired) \<in> set evs)"
    by simp
  then show ?case
  proof
    assume "Kill \<in> set (effects (streaming_on w cfg st e))"
    from streaming_on_kill [OF this] show ?thesis
      by (cases e) auto
  next
    assume "\<exists>t. (t, TimerFired) \<in> set evs"
    then show ?thesis by auto
  qed
qed

lemma streaming_on_events_irrelevant:
  "streaming_on (w\<lparr>exec_process := Inr evs\<rparr>) cfg st e = streaming_on w cfg st e"
  by (cases e; cases "snd e") (auto simp: Let_def)

lemma spawned_fields:
  "outputLineCount (spawned req dl) = 0"
  "effects (spawned req dl) = [SpawnProcess req, SetTimeout dl]"
  by (simp_all add: spawned_def)

text \<open>
  C9: in streaming mode the counter is the number of line boundaries in the stdout
  chunks received.  Once it has reached \<open>maxOutputLines\<close>, with unsafe operations not
  allowed, no stdout event is emitted any more: what the whole run emits for stdout is
  what the run up to that point had emitted.  With unsafe operations allowed every stdout
  chunk is emitted.  Every stderr chunk is emitted, whatever the limit and the counter.
  The process is killed only by the timer: no kill without a firing of the timer.
\<close>

theorem streaming_output_limit:
  assumes "exec_events w = pre @ post"
  shows "outputLineCount (executeWithStreaming w cfg cfgEnv filePath options) =
           lineBoundaries (concat (stdoutChunks (exec_events w)))
       \<and> (\<not> allowUnsafeOperations cfg \<and>
            maxOutputLines cfg \<le> lineBoundaries (concat (stdoutChunks pre)) \<longrightarrow>
            emittedData Stdout (effects (executeWithStreaming w cfg cfgEnv filePath options)) =
            emittedData Stdout
              (effects (executeWithStreaming (w\<lparr>exec_process := Inr pre\<rparr>) cfg cfgEnv filePath options)))
       \<and> (allowUnsafeOperations cfg \<longrightarrow>
            emittedData Stdout (effects (executeWithStreaming w cfg cfgEnv filePath options)) =
            stdoutChunks (exec_events w))
       \<and> emittedData Stderr (effects (executeWithStreaming w cfg cfgEnv filePath options)) =
           stderrChunks (exec_events w)
       \<and> (Kill \<in> set (effects (executeWithStreaming w cfg cfgEnv filePath options)) \<longrightarrow>
            (\<exists>t. (t, TimerFired) \<in> set (exec_events w)))"
proof (cases "exec_process w")
  case (Inl e)
  let ?req = "\<lparr>sp_command = pythonPath cfg, sp_args = [filePath],
               sp_cwd = Some (effectiveCwd options cfg),
               sp_env = Some (overlayEnv cfgEnv options)\<rparr>"
  have none: "exec_events w = []" using Inl by (rule exec_events_threw)
  with assms have pre: "pre = []" by simp
  have t: "executeWithStreaming w cfg cfgEnv filePath options = threw ?req e"
    using Inl by (rule executeWithStreaming_threw)
  have s: "executeWithStreaming (w\<lparr>exec_process := Inr pre\<rparr>) cfg cfgEnv filePath options =
           spawned ?req (effectiveTimeout options cfg)"
    by (simp add: executeWithStreaming_def pre)
  show ?thesis
    unfolding t s none
    by (simp add: threw_def spawned_def emittedData_Nil emittedData_Cons lineBoundaries_def)
next
  case (Inr evs)
  let ?st0 = "spawned \<lparr>sp_command = pythonPath cfg, sp_args = [filePath],
                 sp_cwd = Some (effectiveCwd options cfg),
                 sp_env = Some (overlayEnv cfgEnv options)\<rparr>
          (effectiveTimeout options cfg)"
  let ?f = "streaming_on w cfg"
  have evs: "exec_events w = evs" using Inr by (rule exec_events_Inr)
  have run: "executeWithStreaming w cfg cfgEnv filePath options = foldl ?f ?st0 (exec_events w)"
    unfolding evs using Inr by (rule executeWithStreaming_spawned)
  have f': "streaming_on (w\<lparr>exec_process := Inr pre\<rparr>) cfg = ?f"
    by (intro ext) (rule streaming_on_events_irrelevant)
  have runpre: "executeWithStreaming (w\<lparr>exec_process := Inr pre\<rparr>) cfg cfgEnv filePath options =
                foldl ?f ?st0 pre"
    by (simp add: executeWithStreaming_def f')
  have 1: "outputLineCount (executeWithStreaming w cfg cfgEnv filePath options) =
           lineBoundaries (concat (stdoutChunks (exec_events w)))"
    unfolding run by (simp add: foldl_streaming_count spawned_fields)
  have 2: "emittedData Stdout (effects (executeWithStreaming w cfg cfgEnv filePath options)) =
           emittedData Stdout
             (effects (executeWithStreaming (w\<lparr>exec_process := Inr pre\<rparr>) cfg cfgEnv filePath options))"
    if u: "\<not> allowUnsafeOperations cfg"
      and m: "maxOutputLines cfg \<le> lineBoundaries (concat (stdoutChunks pre))"
  proof -
    have "maxOutputLines cfg \<le> outputLineCount (foldl ?f ?st0 pre)"
      using m by (simp add: foldl_streaming_count spawned_fields)
    from foldl_streaming_suppressed [OF u this, of w post]
    show ?thesis unfolding run runpre assms by simp
  qed
  have 3: "emittedData Stdout (effects (executeWithStreaming w cfg cfgEnv filePath options)) =
           stdoutChunks (exec_events w)" if "allowUnsafeOperations cfg"
    unfolding run
    by (simp add: foldl_streaming_unsafe [OF that] spawned_fields emittedData_Nil emittedData_Cons)
  have 4: "emittedData Stderr (effects (executeWithStreaming w cfg cfgEnv filePath options)) =
           stderrChunks (exec_events w)"
    unfolding run
    by (simp add: foldl_streaming_stderr spawned_fields emittedData_Nil emittedData_Cons)
  have 5: "\<exists>t. (t, TimerFired) \<in> set (exec_events w)"
    if "Kill \<in> set (effects (executeWithStreaming w cfg cfgEnv filePath options))"
    using foldl_streaming_kill [OF that [unfolded run]] by (simp add: spawned_fields)
  from 1 2 3 4 5 show ?thesis by blast
qed

theorem streaming_output_limit_witness:
  "emittedData Stdout
     (effects (executeWithStreaming (someWorld\<lparr>exec_process := Inr chattyEvents\<rparr>) limitedConfig
                 Map.empty ''/tmp/python_exec_1.py'' (noOptions\<lparr>opt_stream := Some True\<rparr>))) =
     [''a\<newline>'']
   \<and> emittedData Stderr
     (effects (executeWithStreaming (someWorld\<lparr>exec_process := Inr chattyEvents\<rparr>) limitedConfig
                 Map.empty ''/tmp/python_exec_1.py'' (noOptions\<lparr>opt_stream := Some True\<rparr>))) =
     [''oops'', ''again'']
   \<and> outputLineCount
     (executeWithStreaming (someWorld\<lparr>exec_process := Inr chattyEvents\<rparr>) limitedConfig
                 Map.empty ''/tmp/python_exec_1.py'' (noOptions\<lparr>opt_stream := Some True\<rparr>)) = 3
   \<and> Kill \<notin> set
     (effects (executeWithStreaming (someWorld\<lparr>exec_process := Inr chattyEvents\<rparr>) limitedConfig
                 Map.empty ''/tmp/python_exec_1.py'' (noOptions\<lparr>opt_stream := Some True\<rparr>)))"
proof -
  let ?w = "someWorld\<lparr>exec_process := Inr chattyEvents\<rparr>"
  let ?o = "noOptions\<lparr>opt_stream := Some True\<rparr>"
  let ?pre = "[(101::int, StdoutData ''a\<newline>''), (102, StdoutData ''b\<newline>'')]"
  let ?post = "[(103::int, StderrData ''oops''), (104, StdoutData ''c\<newline>''),
                (105, StderrData ''again''), (106, Close (Some 0))]"
  have ev: "exec_events ?w = ?pre @ ?post" by (simp add: chattyEvents_def exec_events_def)
  have u: "\<not> allowUnsafeOperations limitedConfig" by (simp add: limitedConfig_def)
  have m: "maxOutputLines limitedConfig \<le> lineBoundaries (concat (stdoutChunks ?pre))"
    by (simp add: limitedConfig_def lineBoundaries_def)
  have pre: "emittedData Stdout
     (effects (executeWithStreaming (?w\<lparr>exec_process := Inr ?pre\<rparr>) limitedConfig
                 Map.empty ''/tmp/python_exec_1.py'' ?o)) = [''a\<newline>'']"
    by (simp add: executeWithStreaming_def spawned_def limitedConfig_def stream_simps
        lineBoundaries_def)
  have nt: "\<not> (\<exists>t. (t, TimerFired) \<in> set (exec_events ?w))"
    by (auto simp: chattyEvents_def exec_events_def)
  have lb: "lineBoundaries (concat (stdoutChunks (exec_events ?w))) = 3"
    by (simp add: chattyEvents_def lineBoundaries_def exec_events_def)
  have se: "stderrChunks (exec_events ?w) = [''oops'', ''again'']"
    by (simp add: chattyEvents_def exec_events_def)
  from streaming_output_limit [OF ev, of limitedConfig Map.empty "''/tmp/python_exec_1.py''" ?o]
    u m pre nt lb se
  show ?thesis by simp
qed

section \<open>The policy under executeUnsafe\<close>



lemma setFlags_frame:
  "envs (setFlags h self l u) = envs h"
  "nextAddr (setFlags h self l u) = nextAddr h"
  "a \<noteq> config self \<Longrightarrow> configs (setFlags h self l u) a = configs h a"
  by (simp_all add: setFlags_def)





section \<open>getConfig and updateConfig\<close>

text \<open>An execution reads the store only through the policy and the environment objects.\<close>

lemma run_reads:
  assumes c: "thisConfig h' self = thisConfig h self" and e: "envs h' = envs h"
  shows "run w h' self code options = run w h self code options"
  unfolding run_def c e by (rule refl)

lemma executeCode_reads:
  assumes c: "thisConfig h' self = thisConfig h self" and e: "envs h' = envs h"
  shows "executeCode w h' self code options = executeCode w h self code options"
  unfolding executeCode_def c run_reads [OF c e] by (rule refl)

lemma thisConfig_updateConfig:
  "thisConfig (updateConfig h self newCfg) self = assign (thisConfig h self) newCfg"
  by (simp add: updateConfig_def thisConfig_def)

text \<open>
  The copy is shallow: the environment of the returned object is the interpreter's own
  environment object, so a write through it is seen by the interpreter.
\<close>

lemma getConfig_shares_environment:
  "environment (configs (snd (getConfig h self)) (fst (getConfig h self))) =
     environment (thisConfig h self)"
  by (simp add: getConfig_def newConfig_def thisConfig_def)

text \<open>
  C10: \<open>getConfig\<close> returns a new object that holds a copy of the policy and leaves the
  stored policy as it is.  Whatever is then written into the returned object, the stored
  policy is unchanged, a later \<open>getConfig\<close> returns the same values as before, and a
  later \<open>executeCode\<close> does what it would have done.  \<open>updateConfig\<close> is what changes
  the stored policy, by assignment of the given keys.  (\<open>executeCode\<close> returns no store;
  for \<open>executeUnsafe\<close> see above.)
\<close>

theorem getConfig_detached:
  assumes "config self < nextAddr h"
  shows "fst (getConfig h self) \<noteq> config self
       \<and> configs (snd (getConfig h self)) (fst (getConfig h self)) = thisConfig h self
       \<and> thisConfig (snd (getConfig h self)) self = thisConfig h self
       \<and> thisConfig ((snd (getConfig h self))
             \<lparr>configs := (configs (snd (getConfig h self)))(fst (getConfig h self) := c)\<rparr>) self
           = thisConfig h self
       \<and> configs (snd (getConfig ((snd (getConfig h self))
             \<lparr>configs := (configs (snd (getConfig h self)))(fst (getConfig h self) := c)\<rparr>) self))
           (fst (getConfig ((snd (getConfig h self))
             \<lparr>configs := (configs (snd (getConfig h self)))(fst (getConfig h self) := c)\<rparr>) self))
           = thisConfig h self
       \<and> executeCode w ((snd (getConfig h self))
             \<lparr>configs := (configs (snd (getConfig h self)))(fst (getConfig h self) := c)\<rparr>)
             self code options
           = executeCode w h self code options
       \<and> thisConfig (updateConfig h self newCfg) self = assign (thisConfig h self) newCfg"
proof -
  let ?a = "fst (getConfig h self)"
  let ?h1 = "snd (getConfig h self)"
  let ?h2 = "?h1\<lparr>configs := (configs ?h1)(?a := c)\<rparr>"
  have a: "?a = nextAddr h" by (simp add: getConfig_def newConfig_def)
  have 1: "?a \<noteq> config self" using assms a by simp
  have 2: "configs ?h1 ?a = thisConfig h self" by (simp add: getConfig_def newConfig_def)
  have 3: "thisConfig ?h1 self = thisConfig h self"
    using assms by (simp add: getConfig_def newConfig_def thisConfig_def)
  have 4: "thisConfig ?h2 self = thisConfig h self"
    using 1 3 by (simp add: thisConfig_def)
  have 5: "configs (snd (getConfig ?h2 self)) (fst (getConfig ?h2 self)) = thisConfig h self"
    using 4 by (simp add: getConfig_def newConfig_def)
  have e: "envs ?h2 = envs h" by (simp add: getConfig_def newConfig_def)
  have 6: "executeCode w ?h2 self code options = executeCode w h self code options"
    by (rule executeCode_reads [OF 4 e])
  have 7: "thisConfig (updateConfig h self newCfg) self = assign (thisConfig h self) newCfg"
    by (rule thisConfig_updateConfig)
  from 1 2 3 4 5 6 7 show ?thesis by (intro conjI)
qed


lemma safeHeap_nextAddr: "nextAddr safeHeap = 2"
  by (simp add: safeHeap_def createInterpreter_def new_PythonInterpreter_def newConfig_def
      assign_def spread_def noConfig_def someAmbient_def someHeap_def Let_def)

lemma safe_config: "config safeInterpreter = 1"
  by (simp add: safeInterpreter_eq)

theorem getConfig_detached_witness:
  "fst (getConfig safeHeap safeInterpreter) \<noteq> config safeInterpreter
   \<and> thisConfig ((snd (getConfig safeHeap safeInterpreter))
         \<lparr>configs := (configs (snd (getConfig safeHeap safeInterpreter)))
            (fst (getConfig safeHeap safeInterpreter) := tamperedConfig)\<rparr>)
         safeInterpreter =
       \<lparr>pythonPath = ''python3'', timeout = 30000, maxOutputLines = 1000, enableLinting = True,
        allowUnsafeOperations = False, workingDirectory = ''/work'', environment = 0\<rparr>
   \<and> executeCode someWorld ((snd (getConfig safeHeap safeInterpreter))
         \<lparr>configs := (configs (snd (getConfig safeHeap safeInterpreter)))
            (fst (getConfig safeHeap safeInterpreter) := tamperedConfig)\<rparr>)
         safeInterpreter ''print(1)'' noOptions =
       executeCode someWorld safeHeap safeInterpreter ''print(1)'' noOptions"
proof -
  have alloc: "config safeInterpreter < nextAddr safeHeap"
    by (simp add: safe_config safeHeap_nextAddr)
  note t = getConfig_detached [OF alloc, of tamperedConfig someWorld "''print(1)''" noOptions]
  note a = t [THEN conjunct1]
  note b = t [THEN conjunct2, THEN conjunct2, THEN conjunct2, THEN conjunct1]
  note c = t [THEN conjunct2, THEN conjunct2, THEN conjunct2, THEN conjunct2, THEN conjunct2,
              THEN conjunct1]
  from a b [unfolded safe_thisConfig] c show ?thesis by (intro conjI)
qed

end
